theory Spec2Isabelle
  imports Complex_Main "HOL-Library.AList" "HOL-Library.Sublist"
begin

section \<open>The PyTorch session of nnfusion (session.py)\<close>

text \<open>
  A shallow embedding of \<^verbatim>\<open>src/python/nnfusion/session.py\<close>. Python objects whose
  identity matters (model weights, output buffers, fed tensors) live in an explicit
  store; temporary values (samples, deep copies) are plain values. Every raise of the
  source is an \<open>Inl\<close> result. The collaborators that are imported from other modules
  (the dtype table, the exporter, the shell, the loaded executor, the model's forward
  function) are fields of an environment record.
\<close>

subsection \<open>Descriptors and tensors\<close>

text \<open>A dimension of a shape: an \<^verbatim>\<open>int\<close>, or anything else (a symbolic, dynamic size).\<close>

datatype dim = IntDim int | DynDim string

text \<open>\<^verbatim>\<open>isinstance(s, int)\<close> is false\<close>

fun not_int :: "dim \<Rightarrow> bool" where
  "not_int (IntDim _) = False"
| "not_int (DynDim _) = True"

text \<open>\<^verbatim>\<open>IODescription(name, shape, dtype, num_classes)\<close> of description.py.\<close>

record IODescription =
  name :: string
  shape :: "dim list"
  dtype :: string
  num_classes :: "int option"

text \<open>An entry of the table \<^verbatim>\<open>str2type\<close> of dtypes.py: the fields this file reads.
  \<open>torch_type\<close> is the torch dtype, kept as the text \<^verbatim>\<open>str\<close> prints for it.\<close>

record TypeObject =
  type_str :: string
  torch_type :: string

datatype elem = Num real | NaN | PosInf | NegInf

record tensor =
  t_shape :: "int list"
  t_dtype :: string
  t_data :: "elem list"
  t_device :: string

type_synonym addr = nat

subsection \<open>Errors\<close>

text \<open>The text of each assertion, with the values its f-string interpolates, in order.
  The two assertions on an output's shape and on an output's dtype carry the same text.\<close>

datatype assert_msg =
    DuplicateInputs string
  | InputAbsent string
  | InputShape string "dim list" "dim list"
  | InputType string string string
  | OutputAbsent string
  | OutputShape string "dim list" "dim list"

text \<open>What leaves the process: the exporter, each shell command, the loading of the
  built artifact and each call of it.\<close>

datatype event =
    Export string "string list" "string list" bool
  | Execute string string
  | LoadExecutor string
  | Invoke

datatype error =
    AssertionError assert_msg
  | KeyError string
  | TypeError string
  | RuntimeError string
  | FormatNotSupported string
  | ConstFoldingTrainingIncompatible
  | CPUNotSupported
  | ROCmNotSupported
  | UnknownDevice string
  | ExternResultMemoryMissing
  | NanFound
  | ForwardError
  | ExternalError event

subsection \<open>The store and the environment\<close>

text \<open>\<open>cells\<close> holds the tensor objects, \<open>next_free\<close> the next unused address, \<open>rng\<close> the
  number of random draws made so far, \<open>trace\<close> the external events in order, and \<open>log\<close>
  the lines given to \<^verbatim>\<open>logger.error\<close>.\<close>

record world =
  cells :: "addr \<Rightarrow> tensor"
  next_free :: addr
  rng :: nat
  trace :: "event list"
  log :: "string list"

text \<open>A \<^verbatim>\<open>torch.nn.Module\<close>: its named parameters and buffers (objects of the store) and
  its remaining internal state.\<close>

record Module =
  named_parameters :: "(string \<times> addr) list"
  named_buffers :: "(string \<times> addr) list"
  internal :: nat

text \<open>The result of \<^verbatim>\<open>copy.deepcopy(model)\<close>: a new object that shares nothing with the
  store, so it is a value.\<close>

record Module_copy =
  copy_parameters :: "(string \<times> tensor) list"
  copy_buffers :: "(string \<times> tensor) list"
  copy_internal :: nat

datatype forward_out = OutTensor tensor | OutTuple "tensor list"

text \<open>\<^verbatim>\<open>DataFormat\<close> of data_format.py, as far as this file reads it.\<close>

datatype DataFormat = DataFormat (reference: addr)

text \<open>Modelled from the spec: \<^verbatim>\<open>cast_pytorch_tensor\<close> of data_format.py is not part of
  the sources at hand. A binding is "the live association between a contract name and
  an actual memory buffer", established with "no copy": the cast wraps the tensor
  object it is given and \<^verbatim>\<open>.reference\<close> gives that object back.\<close>

definition cast_pytorch_tensor :: "addr \<Rightarrow> DataFormat" where
  "cast_pytorch_tensor a = DataFormat a"

text \<open>\<^verbatim>\<open>Executor\<close> of executor.py: the declared inputs and outputs of the loaded artifact
  and its call, which reads the bindings and writes the store (\<open>None\<close>: it raises).\<close>

record Executor =
  get_inputs :: "IODescription list"
  get_outputs :: "IODescription list"
  call :: "(string \<rightharpoonup> DataFormat option) \<Rightarrow> (string \<rightharpoonup> DataFormat) \<Rightarrow> (addr \<Rightarrow> tensor)
             \<Rightarrow> (addr \<Rightarrow> tensor) option"

record env =
  str2type :: "string \<rightharpoonup> TypeObject"
  entropy :: "nat \<Rightarrow> nat"
  forward :: "Module_copy \<Rightarrow> tensor list \<Rightarrow> forward_out option"
  onnx_export :: "Module_copy \<Rightarrow> tensor list \<Rightarrow> tensor list \<Rightarrow> event \<Rightarrow> bool"
  execute_ok :: "event \<Rightarrow> bool"
  load_executor :: "string \<Rightarrow> Executor option"
  abspath :: "string \<Rightarrow> string"
  expand :: "string \<Rightarrow> string"
  tmpdir :: string

subsection \<open>Small Python and torch helpers\<close>

text \<open>\<^verbatim>\<open>s.split(".")[-1]\<close>\<close>

definition split_last :: "char \<Rightarrow> string \<Rightarrow> string" where
  "split_last c s = rev (takeWhile (\<lambda>x. x \<noteq> c) (rev s))"

text \<open>\<^verbatim>\<open>sub in s\<close> on strings\<close>

fun contains :: "string \<Rightarrow> string \<Rightarrow> bool" where
  "contains sub [] = (sub = [])"
| "contains sub (c # cs) = (prefix sub (c # cs) \<or> contains sub cs)"

text \<open>\<^verbatim>\<open>str(n)\<close> for an integer: the decimal digits, most significant first.\<close>

definition digit_char :: "nat \<Rightarrow> char" where
  "digit_char n = ''0123456789'' ! (n mod 10)"

function decimal :: "nat \<Rightarrow> string \<Rightarrow> string" where
  "decimal n acc =
     (if n < 10 then digit_char n # acc else decimal (n div 10) (digit_char n # acc))"
  by pat_completeness auto
termination
  by (relation "measure fst") auto

declare decimal.simps [simp del]

definition str_nat :: "nat \<Rightarrow> string" where
  "str_nat n = decimal n []"

definition str_int :: "int \<Rightarrow> string" where
  "str_int i = (if 0 \<le> i then str_nat (nat i) else CHR ''-'' # str_nat (nat (- i)))"

text \<open>\<^verbatim>\<open>tensor.to(device)\<close>; \<^verbatim>\<open>None\<close> leaves the tensor where it is.\<close>

definition tensor_to :: "tensor \<Rightarrow> string option \<Rightarrow> tensor" where
  "tensor_to t device = (case device of None \<Rightarrow> t | Some d \<Rightarrow> t\<lparr>t_device := d\<rparr>)"

definition numel :: "int list \<Rightarrow> nat" where
  "numel sz = nat (prod_list sz)"

text \<open>\<^verbatim>\<open>torch.ones(size, dtype=ty)\<close>: a negative size raises.\<close>

definition torch_ones :: "int list \<Rightarrow> string \<Rightarrow> error + tensor" where
  "torch_ones sz ty =
     (if list_ex (\<lambda>s. s < 0) sz then Inl (RuntimeError ''negative dimension'')
      else Inr \<lparr>t_shape = sz, t_dtype = ty,
                t_data = replicate (numel sz) (Num 1), t_device = ''cpu''\<rparr>)"

text \<open>\<^verbatim>\<open>torch.randint(low, high, size, dtype=ty)\<close>: raises unless \<open>low < high\<close>; each
  element is \<open>low\<close> plus a draw of the generator reduced to the width of the range, and
  the generator advances by the number of elements.\<close>

definition torch_randint ::
  "env \<Rightarrow> int \<Rightarrow> int \<Rightarrow> int list \<Rightarrow> string \<Rightarrow> world \<Rightarrow> (error + tensor) \<times> world" where
  "torch_randint e low high sz ty w =
     (if high \<le> low then (Inl (RuntimeError ''from must be less than to''), w)
      else if list_ex (\<lambda>s. s < 0) sz then (Inl (RuntimeError ''negative dimension''), w)
      else (Inr \<lparr>t_shape = sz, t_dtype = ty,
                 t_data = map (\<lambda>k. Num (real_of_int
                            (low + int (entropy e (rng w + k) mod nat (high - low)))))
                          [0 ..< numel sz],
                 t_device = ''cpu''\<rparr>,
            w\<lparr>rng := rng w + numel sz\<rparr>))"

subsection \<open>tensor2desc, generate_sample, generate_output_desc\<close>

definition tensor2desc :: "env \<Rightarrow> tensor \<Rightarrow> string \<Rightarrow> error + IODescription" where
  "tensor2desc e pt_tensor nm =
     (let key = split_last CHR ''.'' (t_dtype pt_tensor) in
      case str2type e key of
        None \<Rightarrow> Inl (KeyError key)
      | Some ty \<Rightarrow> Inr \<lparr>name = nm, shape = map IntDim (t_shape pt_tensor),
                       dtype = type_str ty, num_classes = None\<rparr>)"

definition sample_size :: "dim list \<Rightarrow> int list" where
  "sample_size sh = map (\<lambda>s. case s of IntDim i \<Rightarrow> i | DynDim _ \<Rightarrow> 1) sh"

text \<open>\<^verbatim>\<open>if desc.num_classes\<close>: \<^verbatim>\<open>None\<close> and \<open>0\<close> are false.\<close>

definition truthy_classes :: "int option \<Rightarrow> bool" where
  "truthy_classes nc = (case nc of None \<Rightarrow> False | Some n \<Rightarrow> n \<noteq> 0)"

definition generate_sample ::
  "env \<Rightarrow> IODescription \<Rightarrow> string option \<Rightarrow> world \<Rightarrow> (error + tensor) \<times> world" where
  "generate_sample e desc device w =
     (let sz = sample_size (shape desc) in
      if truthy_classes (num_classes desc) then
        (case str2type e (dtype desc) of
           None \<Rightarrow> (Inl (KeyError (dtype desc)), w)
         | Some ty \<Rightarrow>
             (case torch_randint e 0 (the (num_classes desc)) sz (torch_type ty) w of
                (Inl err, w1) \<Rightarrow> (Inl err, w1)
              | (Inr t, w1) \<Rightarrow> (Inr (tensor_to t device), w1)))
      else
        (case str2type e (dtype desc) of
           None \<Rightarrow> (Inl (KeyError (dtype desc)), w)
         | Some ty \<Rightarrow>
             (case torch_ones sz (torch_type ty) of
                Inl err \<Rightarrow> (Inl err, w)
              | Inr t \<Rightarrow> (Inr (tensor_to t device), w))))"

text \<open>\<^verbatim>\<open>[generate_sample(desc, device) for desc in descs]\<close>\<close>

fun generate_samples ::
  "env \<Rightarrow> IODescription list \<Rightarrow> string option \<Rightarrow> world \<Rightarrow> (error + tensor list) \<times> world" where
  "generate_samples e [] device w = (Inr [], w)"
| "generate_samples e (desc # descs) device w =
     (case generate_sample e desc device w of
        (Inl err, w1) \<Rightarrow> (Inl err, w1)
      | (Inr t, w1) \<Rightarrow>
          (case generate_samples e descs device w1 of
             (Inl err, w2) \<Rightarrow> (Inl err, w2)
           | (Inr ts, w2) \<Rightarrow> (Inr (t # ts), w2)))"

definition deepcopy :: "Module \<Rightarrow> world \<Rightarrow> Module_copy" where
  "deepcopy model w =
     \<lparr>copy_parameters = map (\<lambda>(n, a). (n, cells w a)) (named_parameters model),
      copy_buffers = map (\<lambda>(n, a). (n, cells w a)) (named_buffers model),
      copy_internal = internal model\<rparr>"

text \<open>\<^verbatim>\<open>.to(device)\<close> on the copy\<close>

definition copy_to :: "Module_copy \<Rightarrow> string \<Rightarrow> Module_copy" where
  "copy_to c device =
     c\<lparr>copy_parameters := map (\<lambda>(n, t). (n, tensor_to t (Some device))) (copy_parameters c),
       copy_buffers := map (\<lambda>(n, t). (n, tensor_to t (Some device))) (copy_buffers c)\<rparr>"

text \<open>\<^verbatim>\<open>model.to(device)\<close> on a module of the store, as \<^verbatim>\<open>Module._apply\<close> does it: each
  parameter object keeps its identity and is given the moved data; each buffer name is
  bound to \<^verbatim>\<open>buf.to(device)\<close>, which is the buffer itself when it is on the device already
  and a new tensor object otherwise.\<close>

definition move_parameters :: "string \<Rightarrow> (string \<times> addr) list \<Rightarrow> world \<Rightarrow> world" where
  "move_parameters device ps w =
     w\<lparr>cells := fold (\<lambda>(n, a) h. h(a := tensor_to (h a) (Some device))) ps (cells w)\<rparr>"

fun move_buffers ::
  "string \<Rightarrow> (string \<times> addr) list \<Rightarrow> world \<Rightarrow> (string \<times> addr) list \<times> world" where
  "move_buffers device [] w = ([], w)"
| "move_buffers device ((n, a) # bs) w =
     (if t_device (cells w a) = device
      then (case move_buffers device bs w of (bs', w') \<Rightarrow> ((n, a) # bs', w'))
      else (case move_buffers device bs
                   (w\<lparr>cells := (cells w)(next_free w := tensor_to (cells w a) (Some device)),
                      next_free := Suc (next_free w)\<rparr>) of
              (bs', w') \<Rightarrow> ((n, next_free w) # bs', w')))"

definition model_to :: "Module \<Rightarrow> string \<Rightarrow> world \<Rightarrow> Module \<times> world" where
  "model_to model device w =
     (case move_buffers device (named_buffers model)
             (move_parameters device (named_parameters model) w) of
        (bs, w') \<Rightarrow> (model\<lparr>named_buffers := bs\<rparr>, w'))"

text \<open>\<^verbatim>\<open>tuple(tensor2desc(t, name=f"output_{i}") for i, t in enumerate(out))\<close>\<close>

fun output_descs :: "env \<Rightarrow> nat \<Rightarrow> tensor list \<Rightarrow> error + IODescription list" where
  "output_descs e i [] = Inr []"
| "output_descs e i (t # ts) =
     (case tensor2desc e t (''output_'' @ str_nat i) of
        Inl err \<Rightarrow> Inl err
      | Inr d \<Rightarrow>
          (case output_descs e (Suc i) ts of
             Inl err \<Rightarrow> Inl err
           | Inr ds \<Rightarrow> Inr (d # ds)))"

definition generate_output_desc ::
  "env \<Rightarrow> Module \<Rightarrow> IODescription list \<Rightarrow> string \<Rightarrow> world \<Rightarrow> (error + IODescription list) \<times> world" where
  "generate_output_desc e model input_desc device w =
     (case generate_samples e input_desc (Some device) w of
        (Inl err, w1) \<Rightarrow> (Inl err, w1)
      | (Inr fake_inputs, w1) \<Rightarrow>
          (let model_copy = copy_to (deepcopy model w1) device in
           case forward e model_copy fake_inputs of
             None \<Rightarrow> (Inl ForwardError, w1)
           | Some out \<Rightarrow>
               (let out_tuple = (case out of OutTensor t \<Rightarrow> [t] | OutTuple ts \<Rightarrow> ts)
                in (output_descs e 0 out_tuple, w1))))"

subsection \<open>convert_model_to_onnx\<close>

text \<open>The model that was passed in is moved to the device and returned; the exporter is
  given a deep copy of it.\<close>

definition convert_model_to_onnx ::
  "env \<Rightarrow> Module \<Rightarrow> IODescription list \<Rightarrow> IODescription list \<Rightarrow> string \<Rightarrow> string \<Rightarrow> bool
     \<Rightarrow> world \<Rightarrow> (error + Module) \<times> world" where
  "convert_model_to_onnx e model inputs_d outputs_d device file_name const_folding w =
     (case model_to model device w of
        (moved, w0) \<Rightarrow>
          (let input_names = map name inputs_d;
               output_names = map name outputs_d
           in case generate_samples e inputs_d (Some device) w0 of
                (Inl err, w1) \<Rightarrow> (Inl err, w1)
              | (Inr sample_inputs, w1) \<Rightarrow>
                  (case generate_samples e outputs_d (Some device) w1 of
                     (Inl err, w2) \<Rightarrow> (Inl err, w2)
                   | (Inr sample_outputs, w2) \<Rightarrow>
                       (let ev = Export file_name input_names output_names const_folding;
                            w3 = w2\<lparr>trace := trace w2 @ [ev]\<rparr>
                        in if onnx_export e (copy_to (deepcopy moved w2) device)
                                sample_inputs sample_outputs ev
                           then (Inr moved, w3)
                           else (Inl (ExternalError ev), w3)))))"

subsection \<open>Codegen flags and the build pipeline\<close>

text \<open>The values a codegen flag may take.\<close>

datatype pyval = PyNone | PyBool bool | PyInt int | PyStr string

text \<open>\<^verbatim>\<open>bool(v)\<close>\<close>

fun truthy :: "pyval \<Rightarrow> bool" where
  "truthy PyNone = False"
| "truthy (PyBool b) = b"
| "truthy (PyInt i) = (i \<noteq> 0)"
| "truthy (PyStr s) = (s \<noteq> [])"

text \<open>\<^verbatim>\<open>"{}".format(v)\<close>\<close>

fun py_str :: "pyval \<Rightarrow> string" where
  "py_str PyNone = ''None''"
| "py_str (PyBool b) = (if b then ''True'' else ''False'')"
| "py_str (PyInt i) = str_int i"
| "py_str (PyStr s) = s"

text \<open>A \<^verbatim>\<open>dict\<close> whose order of iteration matters is the list of its items.
  \<^verbatim>\<open>d[k] = v\<close> is \<open>AList.update\<close>; \<^verbatim>\<open>d.update(items)\<close> and the dict comprehension
  assign item after item.\<close>

definition dict_update :: "('k \<times> 'v) list \<Rightarrow> ('k \<times> 'v) list \<Rightarrow> ('k \<times> 'v) list" where
  "dict_update d items = fold (\<lambda>(k, v) acc. AList.update k v acc) items d"

definition dict_of_items :: "('k \<times> 'v) list \<Rightarrow> ('k \<times> 'v) list" where
  "dict_of_items items = dict_update [] items"

text \<open>\<^verbatim>\<open>d.get(k, default)\<close>\<close>

definition dict_get :: "('k \<times> 'v) list \<Rightarrow> 'k \<Rightarrow> 'v \<Rightarrow> 'v" where
  "dict_get d k dflt = (case map_of d k of None \<Rightarrow> dflt | Some v \<Rightarrow> v)"

text \<open>\<^verbatim>\<open>sep.join(xs)\<close>\<close>

fun join :: "string \<Rightarrow> string list \<Rightarrow> string" where
  "join sep [] = []"
| "join sep [x] = x"
| "join sep (x # y # ys) = x @ sep @ join sep (y # ys)"

text \<open>\<^verbatim>\<open>os.path.join(a, b)\<close> for a relative \<open>b\<close>\<close>

definition path_join :: "string \<Rightarrow> string \<Rightarrow> string" where
  "path_join a b = (if a = [] \<or> last a = CHR ''/'' then a @ b else a @ ''/'' @ b)"

text \<open>A step that leaves the process is appended to the trace; the environment says
  whether it succeeds.\<close>

definition external :: "env \<Rightarrow> event \<Rightarrow> world \<Rightarrow> (error + unit) \<times> world" where
  "external e ev w =
     (let w1 = w\<lparr>trace := trace w @ [ev]\<rparr>
      in if execute_ok e ev then (Inr (), w1) else (Inl (ExternalError ev), w1))"

definition codegen :: "env \<Rightarrow> string \<Rightarrow> string \<Rightarrow> string \<Rightarrow> world \<Rightarrow> (error + unit) \<times> world" where
  "codegen e model_path flags output_dir w =
     external e (Execute output_dir (''nnfusion '' @ abspath e model_path @ '' '' @ flags)) w"

definition modify_nnfusion_rt :: "env \<Rightarrow> string \<Rightarrow> world \<Rightarrow> (error + unit) \<times> world" where
  "modify_nnfusion_rt e rt_dir w =
     external e (Execute rt_dir
       (''sed -i '' @ [CHR 0x27] @ ''/cudaDeviceReset()/s:^://:'' @ [CHR 0x27] @ '' nnfusion_rt.cu'')) w"

definition build :: "env \<Rightarrow> string \<Rightarrow> world \<Rightarrow> (error + unit) \<times> world" where
  "build e rt_dir w =
     (case external e (Execute rt_dir ''cmake .'') w of
        (Inl err, w1) \<Rightarrow> (Inl err, w1)
      | (Inr _, w1) \<Rightarrow> external e (Execute rt_dir ''make -j'') w1)"

subsection \<open>PTSession\<close>

text \<open>The attributes \<^verbatim>\<open>__init__\<close> has set before it calls \<^verbatim>\<open>_create_executor\<close>, and those
  that \<^verbatim>\<open>_create_executor\<close> adds. The leading underscore of the attribute names is
  written \<open>s_\<close>.\<close>

record PTSession_attrs =
  s_model :: Module
  s_model_format :: string
  s_torch_weights :: "(string \<times> addr) list"
  s_input_desc :: "IODescription list"
  s_device :: string
  s_output_desc :: "IODescription list"
  s_workdir :: string
  s_const_folding :: bool
  s_build_nnf :: bool
  s_onnx_model_path :: string
  s_codegen_flags :: "(string \<times> pyval) list"

record PTSession = PTSession_attrs +
  s_executor :: Executor
  s_inputs :: "string \<rightharpoonup> DataFormat option"
  s_outputs :: "string \<rightharpoonup> DataFormat"

text \<open>\<^verbatim>\<open>self._codegen_flags.get("training_mode", False)\<close> as a condition\<close>

definition training_mode :: "(string \<times> pyval) list \<Rightarrow> bool" where
  "training_mode flags = truthy (dict_get flags ''training_mode'' (PyBool False))"

text \<open>Lines 177 to 196 of \<^verbatim>\<open>_create_executor\<close>: the device, the build, the loading.\<close>

definition rt_dir_of :: "string \<Rightarrow> string \<Rightarrow> error + string" where
  "rt_dir_of device workdir =
     (if contains ''cuda'' device then Inr (path_join workdir ''nnfusion_rt/cuda_codegen'')
      else if contains ''cpu'' device then Inl CPUNotSupported
      else if contains ''rocm'' device then Inl ROCmNotSupported
      else Inl (UnknownDevice device))"

definition flags_str :: "string \<Rightarrow> (string \<times> pyval) list \<Rightarrow> string" where
  "flags_str model_format flags =
     (''-f '' @ model_format @ '' '') @
     join '' '' (map (\<lambda>(k, v). ''-f'' @ k @ ''='' @ py_str v) flags)"

definition build_pipeline ::
  "env \<Rightarrow> ('a PTSession_attrs_scheme) \<Rightarrow> string \<Rightarrow> world \<Rightarrow> (error + unit) \<times> world" where
  "build_pipeline e self rt_dir w =
     (case codegen e (s_onnx_model_path self)
             (flags_str (s_model_format self) (s_codegen_flags self)) (s_workdir self) w of
        (Inl err, w1) \<Rightarrow> (Inl err, w1)
      | (Inr _, w1) \<Rightarrow>
          (case modify_nnfusion_rt e rt_dir w1 of
             (Inl err, w2) \<Rightarrow> (Inl err, w2)
           | (Inr _, w2) \<Rightarrow> build e rt_dir w2))"

definition load_stage ::
  "env \<Rightarrow> ('a PTSession_attrs_scheme) \<Rightarrow> world \<Rightarrow> (error + Executor) \<times> world" where
  "load_stage e self w =
     (case rt_dir_of (s_device self) (s_workdir self) of
        Inl err \<Rightarrow> (Inl err, w)
      | Inr rt_dir \<Rightarrow>
          (case (if s_build_nnf self then build_pipeline e self rt_dir w else (Inr (), w)) of
             (Inl err, w1) \<Rightarrow> (Inl err, w1)
           | (Inr _, w1) \<Rightarrow>
               (let w2 = w1\<lparr>trace := trace w1 @ [LoadExecutor rt_dir]\<rparr>
                in case load_executor e rt_dir of
                     None \<Rightarrow> (Inl (ExternalError (LoadExecutor rt_dir)), w2)
                   | Some ex \<Rightarrow> (Inr ex, w2))))"

text \<open>Lines 200 to 205: the caller's descriptors by name, and in training mode the
  descriptor of every weight.\<close>

definition desc_dict :: "IODescription list \<Rightarrow> (string \<rightharpoonup> IODescription)" where
  "desc_dict descs = fold (\<lambda>desc m. m(name desc \<mapsto> desc)) descs Map.empty"

fun add_weights ::
  "env \<Rightarrow> (addr \<Rightarrow> tensor) \<Rightarrow> (string \<times> addr) list \<Rightarrow> (string \<rightharpoonup> IODescription)
     \<Rightarrow> error + (string \<rightharpoonup> IODescription)" where
  "add_weights e h [] real_inputs = Inr real_inputs"
| "add_weights e h ((n, a) # ws) real_inputs =
     (if real_inputs n \<noteq> None then Inl (AssertionError (DuplicateInputs n))
      else case tensor2desc e (h a) n of
             Inl err \<Rightarrow> Inl err
           | Inr d \<Rightarrow> add_weights e h ws (real_inputs(n \<mapsto> d)))"

definition real_inputs_of ::
  "env \<Rightarrow> ('a PTSession_attrs_scheme) \<Rightarrow> (addr \<Rightarrow> tensor) \<Rightarrow> error + (string \<rightharpoonup> IODescription)" where
  "real_inputs_of e self h =
     (if training_mode (s_codegen_flags self)
      then add_weights e h (s_torch_weights self) (desc_dict (s_input_desc self))
      else Inr (desc_dict (s_input_desc self)))"

text \<open>Lines 208 to 221: the loop over the inputs the artifact declares.\<close>

fun bind_inputs ::
  "(string \<rightharpoonup> IODescription) \<Rightarrow> (string \<times> addr) list \<Rightarrow> IODescription list
     \<Rightarrow> (string \<rightharpoonup> DataFormat option) \<Rightarrow> error + (string \<rightharpoonup> DataFormat option)" where
  "bind_inputs real_inputs weights [] ins = Inr ins"
| "bind_inputs real_inputs weights (desc # descs) ins =
     (case real_inputs (name desc) of
        None \<Rightarrow> Inl (AssertionError (InputAbsent (name desc)))
      | Some r \<Rightarrow>
          if shape desc \<noteq> shape r
          then Inl (AssertionError (InputShape (name desc) (shape desc) (shape r)))
          else if dtype desc \<noteq> dtype r
          then Inl (AssertionError (InputType (name desc) (dtype desc) (dtype r)))
          else bind_inputs real_inputs weights descs
                 (ins(name desc \<mapsto>
                    (case map_of weights (name desc) of
                       Some a \<Rightarrow> Some (cast_pytorch_tensor a)
                     | None \<Rightarrow> None))))"

text \<open>\<^verbatim>\<open>torch.zeros(shape, dtype=ty, device=device)\<close>: a dimension that is not an
  \<^verbatim>\<open>int\<close> is a type error, a negative one a runtime error.\<close>

definition torch_zeros :: "dim list \<Rightarrow> string \<Rightarrow> string \<Rightarrow> error + tensor" where
  "torch_zeros sh ty device =
     (if list_ex not_int sh
      then Inl (TypeError ''zeros(): size must be a tuple of ints'')
      else if list_ex (\<lambda>s. s < 0) (sample_size sh) then Inl (RuntimeError ''negative dimension'')
      else Inr \<lparr>t_shape = sample_size sh, t_dtype = ty,
                t_data = replicate (numel (sample_size sh)) (Num 0), t_device = device\<rparr>)"

text \<open>The message of the two assertions on a declared output reads
  \<^verbatim>\<open>real_inputs[desc.name].shape\<close>: building it raises \<^verbatim>\<open>KeyError\<close> when the name is
  no input.\<close>

definition output_mismatch :: "(string \<rightharpoonup> IODescription) \<Rightarrow> IODescription \<Rightarrow> error" where
  "output_mismatch real_inputs desc =
     (case real_inputs (name desc) of
        None \<Rightarrow> KeyError (name desc)
      | Some ri \<Rightarrow> AssertionError (OutputShape (name desc) (shape desc) (shape ri)))"

text \<open>Lines 226 to 240: the loop over the outputs the artifact declares.\<close>

fun bind_outputs ::
  "env \<Rightarrow> bool \<Rightarrow> (string \<rightharpoonup> IODescription) \<Rightarrow> (string \<rightharpoonup> IODescription) \<Rightarrow> string
     \<Rightarrow> IODescription list \<Rightarrow> (string \<rightharpoonup> DataFormat) \<Rightarrow> world
     \<Rightarrow> (error + (string \<rightharpoonup> DataFormat)) \<times> world" where
  "bind_outputs e training real_inputs real_outputs device [] outs w = (Inr outs, w)"
| "bind_outputs e training real_inputs real_outputs device (desc # descs) outs w =
     (if \<not> (training \<or> real_outputs (name desc) \<noteq> None)
      then (Inl (AssertionError (OutputAbsent (name desc))), w)
      else if (case real_outputs (name desc) of
                 None \<Rightarrow> False
               | Some ro \<Rightarrow> shape desc \<noteq> shape ro \<or> dtype desc \<noteq> dtype ro)
      then (Inl (output_mismatch real_inputs desc), w)
      else case str2type e (dtype desc) of
             None \<Rightarrow> (Inl (KeyError (dtype desc)), w)
           | Some ty \<Rightarrow>
               (case torch_zeros (shape desc) (torch_type ty) device of
                  Inl err \<Rightarrow> (Inl err, w)
                | Inr t \<Rightarrow>
                    bind_outputs e training real_inputs real_outputs device descs
                      (outs(name desc \<mapsto> cast_pytorch_tensor (next_free w)))
                      (w\<lparr>cells := (cells w)(next_free w := t),
                         next_free := Suc (next_free w)\<rparr>)))"

text \<open>Lines 198 to 240: the binding of the loaded artifact.\<close>

definition bind_stage ::
  "env \<Rightarrow> ('a PTSession_attrs_scheme) \<Rightarrow> Executor \<Rightarrow> world
     \<Rightarrow> (error + (string \<rightharpoonup> DataFormat option) \<times> (string \<rightharpoonup> DataFormat)) \<times> world" where
  "bind_stage e self ex w =
     (let nnf_inputs = get_inputs ex;
          nnf_outputs = get_outputs ex;
          real_outputs = desc_dict (s_output_desc self)
      in case real_inputs_of e self (cells w) of
           Inl err \<Rightarrow> (Inl err, w)
         | Inr real_inputs \<Rightarrow>
             (case bind_inputs real_inputs (s_torch_weights self) nnf_inputs Map.empty of
                Inl err \<Rightarrow> (Inl err, w)
              | Inr ins \<Rightarrow>
                  if \<not> truthy (dict_get (s_codegen_flags self) ''extern_result_memory'' PyNone)
                  then (Inl ExternResultMemoryMissing, w)
                  else (case bind_outputs e (training_mode (s_codegen_flags self)) real_inputs
                               real_outputs (s_device self) nnf_outputs Map.empty w of
                          (Inl err, w1) \<Rightarrow> (Inl err, w1)
                        | (Inr outs, w1) \<Rightarrow> (Inr (ins, outs), w1))))"

definition create_executor ::
  "env \<Rightarrow> PTSession_attrs \<Rightarrow> world \<Rightarrow> (error + PTSession) \<times> world" where
  "create_executor e self w =
     (case load_stage e self w of
        (Inl err, w1) \<Rightarrow> (Inl err, w1)
      | (Inr ex, w1) \<Rightarrow>
          (case bind_stage e self ex w1 of
             (Inl err, w2) \<Rightarrow> (Inl err, w2)
           | (Inr (ins, outs), w2) \<Rightarrow>
               (Inr (PTSession_attrs.extend self
                       \<lparr>s_executor = ex, s_inputs = ins, s_outputs = outs\<rparr>), w2)))"

text \<open>The arguments of \<^verbatim>\<open>PTSession(...)\<close>; \<open>None\<close> is an argument left at its default
  \<^verbatim>\<open>None\<close>.\<close>

record init_args =
  arg_model :: Module
  arg_input_desc :: "IODescription list"
  arg_device :: string
  arg_output_desc :: "IODescription list option"
  arg_workdir :: "string option"
  arg_model_format :: string
  arg_const_folding :: bool
  arg_build_nnf :: bool
  arg_codegen_flags :: "(string \<times> pyval) list option"

text \<open>Lines 130 to 136: the parameters, then the buffers.\<close>

definition torch_weights_of :: "Module \<Rightarrow> (string \<times> addr) list" where
  "torch_weights_of model =
     dict_update (dict_of_items (named_parameters model)) (dict_of_items (named_buffers model))"

text \<open>Lines 169 and 170: the default, then the caller's flags over it.\<close>

definition codegen_flags_of :: "(string \<times> pyval) list option \<Rightarrow> (string \<times> pyval) list" where
  "codegen_flags_of codegen_flags =
     dict_update [(''extern_result_memory'', PyInt 1)]
       (case codegen_flags of None \<Rightarrow> [] | Some fs \<Rightarrow> fs)"

text \<open>Lines 148 to 155; the directory itself is taken to exist or to be creatable.\<close>

definition workdir_of :: "env \<Rightarrow> string option \<Rightarrow> string" where
  "workdir_of e workdir =
     (case workdir of
        None \<Rightarrow> tmpdir e
      | Some d \<Rightarrow> if d \<noteq> [] then expand e d else tmpdir e)"

text \<open>Lines 139 to 145: the caller's output descriptors, or those of a probe of the model.\<close>

definition output_desc_of ::
  "env \<Rightarrow> init_args \<Rightarrow> world \<Rightarrow> (error + IODescription list) \<times> world" where
  "output_desc_of e args w =
     (case arg_output_desc args of
        Some od \<Rightarrow> (Inr od, w)
      | None \<Rightarrow> generate_output_desc e (arg_model args) (arg_input_desc args) (arg_device args) w)"

text \<open>Lines 160 to 165: the export, when the session builds the artifact.\<close>

definition onnx_model_path_of :: "env \<Rightarrow> init_args \<Rightarrow> string" where
  "onnx_model_path_of e args =
     (if arg_build_nnf args then path_join (workdir_of e (arg_workdir args)) ''nnf.onnx'' else [])"

definition export_stage ::
  "env \<Rightarrow> init_args \<Rightarrow> IODescription list \<Rightarrow> world \<Rightarrow> (error + Module) \<times> world" where
  "export_stage e args output_desc w =
     (if arg_build_nnf args
      then convert_model_to_onnx e (arg_model args) (arg_input_desc args) output_desc
             (arg_device args) (onnx_model_path_of e args) (arg_const_folding args) w
      else (Inr (arg_model args), w))"

text \<open>The attributes set by the time \<^verbatim>\<open>_create_executor\<close> is called. \<open>model\<close> is the
  caller's model as the export has left it; the weights were collected before.\<close>

definition init_attrs ::
  "env \<Rightarrow> init_args \<Rightarrow> Module \<Rightarrow> IODescription list \<Rightarrow> PTSession_attrs" where
  "init_attrs e args model output_desc =
     \<lparr>s_model = model,
      s_model_format = arg_model_format args,
      s_torch_weights = torch_weights_of (arg_model args),
      s_input_desc = arg_input_desc args,
      s_device = arg_device args,
      s_output_desc = output_desc,
      s_workdir = workdir_of e (arg_workdir args),
      s_const_folding = arg_const_folding args,
      s_build_nnf = arg_build_nnf args,
      s_onnx_model_path = onnx_model_path_of e args,
      s_codegen_flags = codegen_flags_of (arg_codegen_flags args)\<rparr>"

definition PTSession_init :: "env \<Rightarrow> init_args \<Rightarrow> world \<Rightarrow> (error + PTSession) \<times> world" where
  "PTSession_init e args w =
     (if arg_model_format args \<noteq> ''onnx''
      then (Inl (FormatNotSupported (arg_model_format args)), w)
      else
        case output_desc_of e args w of
          (Inl err, w1) \<Rightarrow> (Inl err, w1)
        | (Inr output_desc, w1) \<Rightarrow>
            (case export_stage e args output_desc w1 of
               (Inl err, w2) \<Rightarrow> (Inl err, w2)
             | (Inr model, w2) \<Rightarrow>
                 if training_mode (codegen_flags_of (arg_codegen_flags args))
                      \<and> arg_const_folding args
                 then (Inl ConstFoldingTrainingIncompatible, w2)
                 else create_executor e (init_attrs e args model output_desc) w2))"

subsection \<open>run_by_nnf and is_weights_nan\<close>

definition isnan_any :: "tensor \<Rightarrow> bool" where
  "isnan_any t = list_ex (\<lambda>x. x = NaN) (t_data t)"

definition isinf_any :: "tensor \<Rightarrow> bool" where
  "isinf_any t = list_ex (\<lambda>x. x = PosInf \<or> x = NegInf) (t_data t)"

text \<open>\<^verbatim>\<open>"Nan or inf found in {}".format(name)\<close>\<close>

definition nan_message :: "string \<Rightarrow> string" where
  "nan_message n = ''Nan or inf found in '' @ n"

text \<open>The loop of \<^verbatim>\<open>is_weights_nan\<close>, on the pair of \<^verbatim>\<open>have_nan\<close> and the log.\<close>

fun scan_weights ::
  "(addr \<Rightarrow> tensor) \<Rightarrow> (string \<times> addr) list \<Rightarrow> bool \<times> string list \<Rightarrow> bool \<times> string list" where
  "scan_weights h [] acc = acc"
| "scan_weights h ((n, a) # ws) (have_nan, lg) =
     (if isnan_any (h a) \<or> isinf_any (h a)
      then scan_weights h ws (True, lg @ [nan_message n])
      else scan_weights h ws (have_nan, lg))"

definition is_weights_nan :: "'a PTSession_scheme \<Rightarrow> world \<Rightarrow> bool \<times> world" where
  "is_weights_nan self w =
     (case scan_weights (cells w) (s_torch_weights self) (False, log w) of
        (have_nan, lg) \<Rightarrow> (have_nan, w\<lparr>log := lg\<rparr>))"

text \<open>The loop over \<^verbatim>\<open>feed_data.items()\<close>, and its body.\<close>

definition feed_one ::
  "string \<times> addr \<Rightarrow> (string \<rightharpoonup> DataFormat option) \<Rightarrow> (string \<rightharpoonup> DataFormat option)" where
  "feed_one item ins =
     (if ins (fst item) \<noteq> None
      then ins(fst item \<mapsto> Some (cast_pytorch_tensor (snd item)))
      else ins)"

definition feed_inputs ::
  "(string \<times> addr) list \<Rightarrow> (string \<rightharpoonup> DataFormat option) \<Rightarrow> (string \<rightharpoonup> DataFormat option)" where
  "feed_inputs feed_data ins = fold feed_one feed_data ins"

text \<open>\<^verbatim>\<open>[self._outputs[desc.name].reference for desc in self._output_desc]\<close>\<close>

fun collect_outputs :: "(string \<rightharpoonup> DataFormat) \<Rightarrow> IODescription list \<Rightarrow> error + addr list" where
  "collect_outputs outs [] = Inr []"
| "collect_outputs outs (desc # descs) =
     (case outs (name desc) of
        None \<Rightarrow> Inl (KeyError (name desc))
      | Some df \<Rightarrow>
          (case collect_outputs outs descs of
             Inl err \<Rightarrow> Inl err
           | Inr rs \<Rightarrow> Inr (reference df # rs)))"

definition run_by_nnf ::
  "PTSession \<Rightarrow> (string \<times> addr) list \<Rightarrow> bool \<Rightarrow> world \<Rightarrow> (error + addr list) \<times> PTSession \<times> world" where
  "run_by_nnf self feed_data check_nan w =
     (let self1 = self\<lparr>s_inputs := feed_inputs feed_data (s_inputs self)\<rparr>;
          w1 = w\<lparr>trace := trace w @ [Invoke]\<rparr>
      in case call (s_executor self1) (s_inputs self1) (s_outputs self1) (cells w1) of
           None \<Rightarrow> (Inl (ExternalError Invoke), self1, w1)
         | Some h \<Rightarrow>
             (let w2 = w1\<lparr>cells := h\<rparr>
              in if check_nan
                 then (case is_weights_nan self1 w2 of
                         (have_nan, w3) \<Rightarrow>
                           if have_nan then (Inl NanFound, self1, w3)
                           else (collect_outputs (s_outputs self1) (s_output_desc self1), self1, w3))
                 else (collect_outputs (s_outputs self1) (s_output_desc self1), self1, w2)))"

section \<open>Examples\<close>

text \<open>A dtype table with two entries, an artifact that copies its input \<open>x\<close> to its
  output \<open>y\<close>, and an environment in which every external step succeeds and the model
  returns its arguments.\<close>

definition example_types :: "string \<rightharpoonup> TypeObject" where
  "example_types =
     [''float32'' \<mapsto> \<lparr>type_str = ''float32'', torch_type = ''torch.float32''\<rparr>,
      ''int64'' \<mapsto> \<lparr>type_str = ''int64'', torch_type = ''torch.int64''\<rparr>]"

definition x_desc :: IODescription where
  "x_desc = \<lparr>name = ''x'', shape = [IntDim 2, IntDim 3], dtype = ''float32'', num_classes = None\<rparr>"

definition y_desc :: IODescription where
  "y_desc = \<lparr>name = ''y'', shape = [IntDim 2, IntDim 3], dtype = ''float32'', num_classes = None\<rparr>"

definition copy_executor :: Executor where
  "copy_executor =
     \<lparr>get_inputs = [x_desc], get_outputs = [y_desc],
      call = (\<lambda>ins outs h.
        case (ins ''x'', outs ''y'') of
          (Some (Some i), Some out) \<Rightarrow> Some (h(reference out := h (reference i)))
        | _ \<Rightarrow> None)\<rparr>"

definition example_env :: env where
  "example_env =
     \<lparr>str2type = example_types, entropy = (\<lambda>k. k),
      forward = (\<lambda>m xs. Some (OutTuple xs)),
      onnx_export = (\<lambda>m ins outs ev. True),
      execute_ok = (\<lambda>ev. True),
      load_executor = (\<lambda>d. Some copy_executor),
      abspath = (\<lambda>p. p), expand = (\<lambda>p. p), tmpdir = ''/tmp/nnf_''\<rparr>"

definition ones23 :: tensor where
  "ones23 = \<lparr>t_shape = [2, 3], t_dtype = ''torch.float32'',
             t_data = replicate 6 (Num 1), t_device = ''cpu''\<rparr>"

definition example_world :: world where
  "example_world = \<lparr>cells = (\<lambda>a. ones23), next_free = 2, rng = 0, trace = [], log = []\<rparr>"

definition example_model :: Module where
  "example_model = \<lparr>named_parameters = [(''w'', 0)], named_buffers = [], internal = 0\<rparr>"


definition example_args :: init_args where
  "example_args =
     \<lparr>arg_model = example_model, arg_input_desc = [x_desc], arg_device = ''cuda:0'',
      arg_output_desc = Some [y_desc], arg_workdir = Some ''/work'',
      arg_model_format = ''onnx'', arg_const_folding = False, arg_build_nnf = True,
      arg_codegen_flags = None\<rparr>"

definition labels_desc :: IODescription where
  "labels_desc = \<lparr>name = ''labels'', shape = [IntDim 2], dtype = ''int64'', num_classes = Some 5\<rparr>"

text \<open>The attributes of a session whose caller declares the inputs \<open>x\<close> and \<open>labels\<close>,
  for an artifact that is already built.\<close>

definition example_attrs :: PTSession_attrs where
  "example_attrs =
     \<lparr>s_model = example_model, s_model_format = ''onnx'', s_torch_weights = [(''w'', 0)],
      s_input_desc = [x_desc, labels_desc], s_device = ''cuda:0'', s_output_desc = [y_desc],
      s_workdir = ''/work'', s_const_folding = False, s_build_nnf = False,
      s_onnx_model_path = [], s_codegen_flags = [(''extern_result_memory'', PyInt 1)]\<rparr>"





text \<open>Callers that switch \<open>extern_result_memory\<close> off, and that ask for training mode
  together with constant folding.\<close>

definition extern_off_args :: init_args where
  "extern_off_args = example_args\<lparr>arg_codegen_flags := Some [(''extern_result_memory'', PyInt 0)]\<rparr>"


text \<open>An artifact whose output \<open>y\<close> has another shape than the caller declares; and an
  artifact whose output \<open>y\<close> has another dtype, for a caller that also declares an input
  named \<open>y\<close>.\<close>

definition shape_mismatch_env :: env where
  "shape_mismatch_env =
     example_env\<lparr>load_executor :=
       (\<lambda>d. Some (copy_executor\<lparr>get_outputs := [y_desc\<lparr>shape := [IntDim 3, IntDim 2]\<rparr>]\<rparr>))\<rparr>"

definition dtype_mismatch_env :: env where
  "dtype_mismatch_env =
     example_env\<lparr>load_executor :=
       (\<lambda>d. Some (copy_executor\<lparr>get_outputs := [y_desc\<lparr>dtype := ''int64''\<rparr>]\<rparr>))\<rparr>"

definition shadow_args :: init_args where
  "shadow_args =
     example_args\<lparr>arg_input_desc :=
       [x_desc, \<lparr>name = ''y'', shape = [IntDim 7], dtype = ''float32'', num_classes = None\<rparr>]\<rparr>"

text \<open>The session that the constructor builds from the example, and a store in which
  the weight \<open>w\<close> holds a NaN.\<close>

definition example_session :: PTSession where
  "example_session =
     \<lparr>s_model = example_model, s_model_format = ''onnx'', s_torch_weights = [(''w'', 0)],
      s_input_desc = [x_desc], s_device = ''cuda:0'', s_output_desc = [y_desc],
      s_workdir = ''/work'', s_const_folding = False, s_build_nnf = True,
      s_onnx_model_path = ''/work/nnf.onnx'',
      s_codegen_flags = [(''extern_result_memory'', PyInt 1)],
      s_executor = copy_executor, s_inputs = [''x'' \<mapsto> None],
      s_outputs = [''y'' \<mapsto> DataFormat 2]\<rparr>"


text \<open>The definitions to unfold when the model is evaluated on an example.\<close>

lemmas eval_defs =
  PTSession_init_def output_desc_of_def onnx_model_path_of_def export_stage_def init_attrs_def
  create_executor_def load_stage_def bind_stage_def build_pipeline_def
  codegen_def modify_nnfusion_rt_def build_def external_def rt_dir_of_def flags_str_def
  convert_model_to_onnx_def generate_output_desc_def generate_sample_def torch_ones_def
  torch_randint_def torch_zeros_def tensor_to_def tensor2desc_def sample_size_def numel_def
  truthy_classes_def model_to_def move_parameters_def deepcopy_def copy_to_def split_last_def
  real_inputs_of_def desc_dict_def training_mode_def dict_get_def dict_update_def
  dict_of_items_def codegen_flags_of_def torch_weights_of_def workdir_of_def path_join_def
  output_mismatch_def cast_pytorch_tensor_def str_int_def str_nat_def decimal.simps
  digit_char_def Let_def

lemmas example_defs =
  example_env_def example_args_def example_world_def example_model_def example_types_def
  x_desc_def y_desc_def labels_desc_def copy_executor_def ones23_def

section \<open>Properties\<close>

subsection \<open>Sample synthesis\<close>








subsection \<open>Contract inference\<close>







subsection \<open>What export and contract inference do to the caller's model\<close>

lemma generate_sample_frame:
  "generate_sample e desc device w = (r, w') \<Longrightarrow>
     cells w' = cells w \<and> next_free w' = next_free w \<and> trace w' = trace w \<and> log w' = log w"
  by (auto simp: generate_sample_def torch_randint_def torch_ones_def Let_def
           split: option.splits if_splits sum.splits prod.splits)

lemma generate_samples_frame:
  "generate_samples e descs device w = (r, w') \<Longrightarrow>
     cells w' = cells w \<and> next_free w' = next_free w \<and> trace w' = trace w \<and> log w' = log w"
proof (induction descs arbitrary: w r w')
  case Nil
  then show ?case by simp
next
  case (Cons d descs)
  obtain r1 w1 where s1: "generate_sample e d device w = (r1, w1)"
    by (cases "generate_sample e d device w")
  note f1 = generate_sample_frame[OF s1]
  show ?case
  proof (cases r1)
    case (Inl err)
    with Cons.prems s1 f1 show ?thesis by auto
  next
    case (Inr t)
    obtain r2 w2 where s2: "generate_samples e descs device w1 = (r2, w2)"
      by (cases "generate_samples e descs device w1")
    from Cons.IH[OF s2] f1 have "cells w2 = cells w \<and> next_free w2 = next_free w \<and>
        trace w2 = trace w \<and> log w2 = log w"
      by simp
    with Cons.prems s1 s2 Inr show ?thesis
      by (auto split: sum.splits)
  qed
qed

lemma generate_output_desc_frame:
  "generate_output_desc e model input_desc device w = (r, w') \<Longrightarrow>
     cells w' = cells w \<and> next_free w' = next_free w \<and> trace w' = trace w \<and> log w' = log w"
proof -
  assume a: "generate_output_desc e model input_desc device w = (r, w')"
  obtain r1 w1 where s1: "generate_samples e input_desc (Some device) w = (r1, w1)"
    by (cases "generate_samples e input_desc (Some device) w")
  note f1 = generate_samples_frame[OF s1]
  from a s1 have "w' = w1"
    by (auto simp: generate_output_desc_def Let_def split: sum.splits option.splits)
  with f1 show ?thesis by simp
qed

lemma fold_to_device:
  "fold (\<lambda>(n, a) h. h(a := tensor_to (h a) (Some device))) ws h x =
     (if x \<in> snd ` set ws then (h x)\<lparr>t_device := device\<rparr> else h x)"
proof (induction ws arbitrary: h)
  case Nil
  then show ?case by simp
next
  case (Cons p ws)
  obtain n a where p: "p = (n, a)" by (cases p)
  have step: "fold (\<lambda>(n, a) h. h(a := tensor_to (h a) (Some device))) (p # ws) h x =
              fold (\<lambda>(n, a) h. h(a := tensor_to (h a) (Some device))) ws
                (h(a := tensor_to (h a) (Some device))) x"
    unfolding p by (simp only: fold_simps prod.case comp_apply)
  show ?case
    unfolding step Cons.IH by (auto simp: tensor_to_def image_iff p)
qed

lemma move_parameters_frame:
  "cells (move_parameters device ps w) a =
     (if a \<in> snd ` set ps then (cells w a)\<lparr>t_device := device\<rparr> else cells w a)"
  "next_free (move_parameters device ps w) = next_free w"
  "trace (move_parameters device ps w) = trace w"
  "log (move_parameters device ps w) = log w"
  by (simp_all add: move_parameters_def fold_to_device)

lemma move_buffers_frame:
  "move_buffers device bs w = (bs', w') \<Longrightarrow>
     next_free w \<le> next_free w' \<and> trace w' = trace w \<and> log w' = log w \<and>
     (\<forall>a<next_free w. cells w' a = cells w a) \<and>
     list_all2 (\<lambda>p p'. fst p' = fst p \<and> (snd p' = snd p \<or> next_free w \<le> snd p')) bs bs'"
proof (induction bs arbitrary: w bs' w')
  case Nil
  then show ?case by simp
next
  case (Cons p bs)
  obtain n a where p: "p = (n, a)" by (cases p)
  show ?case
  proof (cases "t_device (cells w a) = device")
    case True
    obtain bs1 w1 where r: "move_buffers device bs w = (bs1, w1)"
      by (cases "move_buffers device bs w")
    with Cons.prems True p have "bs' = (n, a) # bs1" "w' = w1" by auto
    with Cons.IH[OF r] show ?thesis unfolding p by simp
  next
    case False
    define w2 where "w2 = w\<lparr>cells := (cells w)(next_free w := tensor_to (cells w a) (Some device)),
                            next_free := Suc (next_free w)\<rparr>"
    obtain bs1 w1 where r: "move_buffers device bs w2 = (bs1, w1)"
      by (cases "move_buffers device bs w2")
    with Cons.prems False p have eq: "bs' = (n, next_free w) # bs1" "w' = w1"
      by (auto simp: w2_def)
    from Cons.IH[OF r] have ih: "next_free w2 \<le> next_free w1" "trace w1 = trace w2"
      "log w1 = log w2" "\<forall>a<next_free w2. cells w1 a = cells w2 a"
      "list_all2 (\<lambda>p p'. fst p' = fst p \<and> (snd p' = snd p \<or> next_free w2 \<le> snd p')) bs bs1"
      by simp_all
    have "list_all2 (\<lambda>p p'. fst p' = fst p \<and> (snd p' = snd p \<or> next_free w \<le> snd p')) bs bs1"
      using ih(5) by (rule list_all2_mono) (auto simp: w2_def)
    with ih(1-4) eq show ?thesis
      unfolding p by (auto simp: w2_def)
  qed
qed


lemma model_to_frame:
  assumes "model_to model device w = (m, w')"
  shows "named_parameters m = named_parameters model" and "internal m = internal model"
    and "next_free w \<le> next_free w'" and "trace w' = trace w" and "log w' = log w"
    and "\<forall>a<next_free w. cells w' a =
           (if a \<in> snd ` set (named_parameters model)
            then (cells w a)\<lparr>t_device := device\<rparr> else cells w a)"
    and "list_all2 (\<lambda>p p'. fst p' = fst p \<and> (snd p' = snd p \<or> next_free w \<le> snd p'))
           (named_buffers model) (named_buffers m)"
proof -
  obtain bs where b: "move_buffers device (named_buffers model)
                        (move_parameters device (named_parameters model) w) = (bs, w')"
    and m: "m = model\<lparr>named_buffers := bs\<rparr>"
    using assms by (auto simp: model_to_def split: prod.splits)
  note f = move_buffers_frame[OF b]
  show "named_parameters m = named_parameters model" "internal m = internal model"
    using m by simp_all
  show "next_free w \<le> next_free w'" "trace w' = trace w" "log w' = log w"
    using f by (simp_all add: move_parameters_frame)
  show "\<forall>a<next_free w. cells w' a =
           (if a \<in> snd ` set (named_parameters model)
            then (cells w a)\<lparr>t_device := device\<rparr> else cells w a)"
    using f by (simp add: move_parameters_frame)
  show "list_all2 (\<lambda>p p'. fst p' = fst p \<and> (snd p' = snd p \<or> next_free w \<le> snd p'))
           (named_buffers model) (named_buffers m)"
    using f m by (simp add: move_parameters_frame)
qed


lemma convert_model_to_onnx_frame:
  assumes "convert_model_to_onnx e model inputs_d outputs_d device file_name const_folding w = (r, w')"
  shows "\<exists>m w0. model_to model device w = (m, w0) \<and>
           cells w' = cells w0 \<and> next_free w' = next_free w0 \<and> log w' = log w \<and>
           (trace w' = trace w \<or>
            trace w' = trace w @ [Export file_name (map name inputs_d) (map name outputs_d) const_folding]) \<and>
           (\<forall>m'. r = Inr m' \<longrightarrow> m' = m \<and>
              trace w' = trace w @ [Export file_name (map name inputs_d) (map name outputs_d) const_folding])"
proof -
  obtain m w0 where mt: "model_to model device w = (m, w0)"
    by (cases "model_to model device w")
  note f0 = model_to_frame(4,5)[OF mt]
  obtain r1 w1 where s1: "generate_samples e inputs_d (Some device) w0 = (r1, w1)"
    by (cases "generate_samples e inputs_d (Some device) w0")
  note f1 = generate_samples_frame[OF s1]
  show ?thesis
  proof (cases r1)
    case (Inl err)
    with assms mt s1 f1 f0 show ?thesis by (auto simp: convert_model_to_onnx_def Let_def)
  next
    case (Inr ins)
    obtain r2 w2 where s2: "generate_samples e outputs_d (Some device) w1 = (r2, w2)"
      by (cases "generate_samples e outputs_d (Some device) w1")
    note f2 = generate_samples_frame[OF s2]
    from assms mt s1 s2 Inr f1 f2 f0 show ?thesis
      by (auto simp: convert_model_to_onnx_def Let_def split: sum.splits if_splits)
  qed
qed




subsection \<open>The scan of the weights\<close>

lemma scan_weights_value:
  "scan_weights h ws (b, lg) =
     (b \<or> list_ex (\<lambda>(n, a). isnan_any (h a) \<or> isinf_any (h a)) ws,
      lg @ map (\<lambda>(n, a). nan_message n)
             (filter (\<lambda>(n, a). isnan_any (h a) \<or> isinf_any (h a)) ws))"
proof (induction ws arbitrary: b lg)
  case Nil
  show ?case by simp
next
  case (Cons p ws)
  obtain n a where p: "p = (n, a)" by (cases p)
  show ?case unfolding p by (simp add: Cons.IH)
qed

lemma is_weights_nan_value:
  "is_weights_nan self w =
     (list_ex (\<lambda>(n, a). isnan_any (cells w a) \<or> isinf_any (cells w a)) (s_torch_weights self),
      w\<lparr>log := log w @ map (\<lambda>(n, a). nan_message n)
                         (filter (\<lambda>(n, a). isnan_any (cells w a) \<or> isinf_any (cells w a))
                            (s_torch_weights self))\<rparr>)"
  by (simp add: is_weights_nan_def scan_weights_value)





lemma example_session_built:
  "fst (PTSession_init example_env example_args example_world) = Inr example_session"
  by (simp add: eval_defs example_defs example_session_def PTSession_attrs.defs)

subsection \<open>The binding of the declared inputs\<close>

lemma extend_fields [simp]:
  "s_executor (PTSession_attrs.extend self \<lparr>s_executor = ex, s_inputs = ins, s_outputs = outs\<rparr>) = ex"
  "s_inputs (PTSession_attrs.extend self \<lparr>s_executor = ex, s_inputs = ins, s_outputs = outs\<rparr>) = ins"
  "s_outputs (PTSession_attrs.extend self \<lparr>s_executor = ex, s_inputs = ins, s_outputs = outs\<rparr>) = outs"
  "s_output_desc (PTSession_attrs.extend self ext) = s_output_desc self"
  "s_input_desc (PTSession_attrs.extend self ext) = s_input_desc self"
  "s_torch_weights (PTSession_attrs.extend self ext) = s_torch_weights self"
  "s_codegen_flags (PTSession_attrs.extend self ext) = s_codegen_flags self"
  "s_device (PTSession_attrs.extend self ext) = s_device self"
  by (cases self; simp add: PTSession_attrs.defs)+

lemma fold_desc_dict_dom:
  "dom (fold (\<lambda>desc m. m(name desc \<mapsto> desc)) descs m0) = dom m0 \<union> name ` set descs"
  by (induction descs arbitrary: m0) auto

lemma fold_desc_dict_Some:
  "fold (\<lambda>desc m. m(name desc \<mapsto> desc)) descs m0 n = Some r \<Longrightarrow>
     m0 n = Some r \<or> (r \<in> set descs \<and> name r = n)"
proof (induction descs arbitrary: m0)
  case Nil
  then show ?case by simp
next
  case (Cons d descs)
  from Cons.IH[of "m0(name d \<mapsto> d)"] Cons.prems show ?case
    by (auto split: if_splits)
qed

lemma desc_dict_dom: "dom (desc_dict descs) = name ` set descs"
  by (simp add: desc_dict_def fold_desc_dict_dom)

lemma desc_dict_Some: "desc_dict descs n = Some r \<Longrightarrow> r \<in> set descs \<and> name r = n"
  using fold_desc_dict_Some[of descs Map.empty n r] by (simp add: desc_dict_def)

lemma add_weights_Inr:
  "add_weights e h ws rin = Inr rin' \<Longrightarrow>
     dom rin' = dom rin \<union> fst ` set ws \<and>
     (\<forall>n r. rin' n = Some r \<longrightarrow>
        rin n = Some r \<or> (\<exists>a. (n, a) \<in> set ws \<and> tensor2desc e (h a) n = Inr r))"
proof (induction ws arbitrary: rin)
  case Nil
  then show ?case by simp
next
  case (Cons p ws)
  obtain n a where p: "p = (n, a)" by (cases p)
  from Cons.prems p obtain d where d: "rin n = None" "tensor2desc e (h a) n = Inr d"
    "add_weights e h ws (rin(n \<mapsto> d)) = Inr rin'"
    by (auto split: if_splits sum.splits)
  from Cons.IH[OF d(3)] have dom': "dom rin' = dom (rin(n \<mapsto> d)) \<union> fst ` set ws"
    and orig: "\<And>m r. rin' m = Some r \<Longrightarrow>
        (rin(n \<mapsto> d)) m = Some r \<or> (\<exists>a. (m, a) \<in> set ws \<and> tensor2desc e (h a) m = Inr r)"
    by blast+
  have "dom rin' = dom rin \<union> fst ` set (p # ws)"
    using dom' unfolding p by auto
  moreover have "rin m = Some r \<or> (\<exists>a. (m, a) \<in> set (p # ws) \<and> tensor2desc e (h a) m = Inr r)"
    if "rin' m = Some r" for m r
    using orig[OF that] d(2) unfolding p by (cases "m = n") auto
  ultimately show ?case by blast
qed

lemma real_inputs_of_Inr:
  assumes "real_inputs_of e self h = Inr rin"
  shows "dom rin = name ` set (s_input_desc self) \<union>
           (if training_mode (s_codegen_flags self) then fst ` set (s_torch_weights self) else {})"
    and "rin n = Some r \<Longrightarrow>
           (r \<in> set (s_input_desc self) \<and> name r = n) \<or>
           (training_mode (s_codegen_flags self) \<and>
            (\<exists>a. (n, a) \<in> set (s_torch_weights self) \<and> tensor2desc e (h a) n = Inr r))"
proof -
  show "dom rin = name ` set (s_input_desc self) \<union>
           (if training_mode (s_codegen_flags self) then fst ` set (s_torch_weights self) else {})"
  proof (cases "training_mode (s_codegen_flags self)")
    case True
    with assms have "add_weights e h (s_torch_weights self) (desc_dict (s_input_desc self)) = Inr rin"
      by (simp add: real_inputs_of_def)
    from add_weights_Inr[OF this] True show ?thesis by (simp add: desc_dict_dom)
  next
    case False
    with assms have "rin = desc_dict (s_input_desc self)"
      by (simp add: real_inputs_of_def)
    with False show ?thesis by (simp add: desc_dict_dom)
  qed
  show "rin n = Some r \<Longrightarrow>
           (r \<in> set (s_input_desc self) \<and> name r = n) \<or>
           (training_mode (s_codegen_flags self) \<and>
            (\<exists>a. (n, a) \<in> set (s_torch_weights self) \<and> tensor2desc e (h a) n = Inr r))"
  proof (cases "training_mode (s_codegen_flags self)")
    case True
    assume r: "rin n = Some r"
    from True assms have "add_weights e h (s_torch_weights self) (desc_dict (s_input_desc self)) = Inr rin"
      by (simp add: real_inputs_of_def)
    from add_weights_Inr[OF this] r True desc_dict_Some[of "s_input_desc self" n r]
    show ?thesis by blast
  next
    case False
    assume r: "rin n = Some r"
    with False assms desc_dict_Some[of "s_input_desc self" n r] show ?thesis
      by (auto simp: real_inputs_of_def)
  qed
qed

lemma bind_inputs_Inr_iff:
  "(\<exists>ins'. bind_inputs rin ws descs ins = Inr ins') =
     (\<forall>d\<in>set descs. \<exists>r. rin (name d) = Some r \<and> shape d = shape r \<and> dtype d = dtype r)"
  by (induction descs arbitrary: ins) (auto split: option.splits)

lemma bind_inputs_Inl:
  "bind_inputs rin ws descs ins = Inl err \<Longrightarrow>
     \<exists>d\<in>set descs.
       (rin (name d) = None \<and> err = AssertionError (InputAbsent (name d))) \<or>
       (\<exists>r. rin (name d) = Some r \<and>
          (shape d \<noteq> shape r \<and> err = AssertionError (InputShape (name d) (shape d) (shape r)) \<or>
           dtype d \<noteq> dtype r \<and> err = AssertionError (InputType (name d) (dtype d) (dtype r))))"
  by (induction descs arbitrary: ins) (auto split: option.splits if_splits)


lemma create_executor_Inr:
  assumes "create_executor e self w = (Inr s, w')"
  shows "\<exists>ex w1 rin ins outs.
           load_stage e self w = (Inr ex, w1) \<and>
           real_inputs_of e self (cells w1) = Inr rin \<and>
           bind_inputs rin (s_torch_weights self) (get_inputs ex) Map.empty = Inr ins \<and>
           truthy (dict_get (s_codegen_flags self) ''extern_result_memory'' PyNone) \<and>
           bind_outputs e (training_mode (s_codegen_flags self)) rin
             (desc_dict (s_output_desc self)) (s_device self) (get_outputs ex) Map.empty w1
             = (Inr outs, w') \<and>
           s = PTSession_attrs.extend self \<lparr>s_executor = ex, s_inputs = ins, s_outputs = outs\<rparr>"
  using assms
  by (auto simp: create_executor_def bind_stage_def Let_def
           split: prod.splits sum.splits if_splits)

lemma create_executor_bind_Inl:
  assumes "load_stage e self w0 = (Inr ex, w)"
    and "real_inputs_of e self (cells w) = Inr rin"
    and "bind_inputs rin (s_torch_weights self) (get_inputs ex) Map.empty = Inl err"
  shows "create_executor e self w0 = (Inl err, w)"
  using assms by (simp add: create_executor_def bind_stage_def Let_def)

text \<open>Claim C1. Once the artifact is loaded, the names the declared inputs are resolved
  against are those of the caller's input descriptors, joined in training mode by those
  of the weights, each with the caller's descriptor or the descriptor of the weight. The
  binding of the inputs passes exactly when every declared input is among these names
  with the same shape and the same dtype; nothing is asked of a caller input that the
  artifact does not declare. When it does not pass, the build of the session fails with
  an assertion that names a declared input that is absent, or that differs in shape or
  dtype, with both values.\<close>

theorem input_binding_validation:
  assumes "load_stage e self w0 = (Inr ex, w)"
    and "real_inputs_of e self (cells w) = Inr rin"
  shows "dom rin = name ` set (s_input_desc self) \<union>
           (if training_mode (s_codegen_flags self) then fst ` set (s_torch_weights self) else {}) \<and>
         (\<forall>n r. rin n = Some r \<longrightarrow>
            (r \<in> set (s_input_desc self) \<and> name r = n) \<or>
            (training_mode (s_codegen_flags self) \<and>
             (\<exists>a. (n, a) \<in> set (s_torch_weights self) \<and> tensor2desc e (cells w a) n = Inr r))) \<and>
         ((\<exists>ins. bind_inputs rin (s_torch_weights self) (get_inputs ex) Map.empty = Inr ins) =
          (\<forall>d\<in>set (get_inputs ex).
             \<exists>r. rin (name d) = Some r \<and> shape d = shape r \<and> dtype d = dtype r)) \<and>
         (\<forall>err. bind_inputs rin (s_torch_weights self) (get_inputs ex) Map.empty = Inl err \<longrightarrow>
            create_executor e self w0 = (Inl err, w) \<and>
            (\<exists>d\<in>set (get_inputs ex).
               (rin (name d) = None \<and> err = AssertionError (InputAbsent (name d))) \<or>
               (\<exists>r. rin (name d) = Some r \<and>
                  (shape d \<noteq> shape r \<and>
                     err = AssertionError (InputShape (name d) (shape d) (shape r)) \<or>
                   dtype d \<noteq> dtype r \<and>
                     err = AssertionError (InputType (name d) (dtype d) (dtype r)))))) \<and>
         (\<forall>s w'. create_executor e self w0 = (Inr s, w') \<longrightarrow>
            (\<forall>d\<in>set (get_inputs ex).
               \<exists>r. rin (name d) = Some r \<and> shape d = shape r \<and> dtype d = dtype r))"
proof (intro conjI allI impI)
  show "dom rin = name ` set (s_input_desc self) \<union>
           (if training_mode (s_codegen_flags self) then fst ` set (s_torch_weights self) else {})"
    by (rule real_inputs_of_Inr(1)[OF assms(2)])
next
  fix n r
  assume "rin n = Some r"
  then show "(r \<in> set (s_input_desc self) \<and> name r = n) \<or>
            (training_mode (s_codegen_flags self) \<and>
             (\<exists>a. (n, a) \<in> set (s_torch_weights self) \<and> tensor2desc e (cells w a) n = Inr r))"
    by (rule real_inputs_of_Inr(2)[OF assms(2)])
next
  show "(\<exists>ins. bind_inputs rin (s_torch_weights self) (get_inputs ex) Map.empty = Inr ins) =
          (\<forall>d\<in>set (get_inputs ex).
             \<exists>r. rin (name d) = Some r \<and> shape d = shape r \<and> dtype d = dtype r)"
    by (rule bind_inputs_Inr_iff)
next
  fix err
  assume "bind_inputs rin (s_torch_weights self) (get_inputs ex) Map.empty = Inl err"
  then show "create_executor e self w0 = (Inl err, w)"
    by (rule create_executor_bind_Inl[OF assms])
next
  fix err
  assume "bind_inputs rin (s_torch_weights self) (get_inputs ex) Map.empty = Inl err"
  then show "\<exists>d\<in>set (get_inputs ex).
               (rin (name d) = None \<and> err = AssertionError (InputAbsent (name d))) \<or>
               (\<exists>r. rin (name d) = Some r \<and>
                  (shape d \<noteq> shape r \<and>
                     err = AssertionError (InputShape (name d) (shape d) (shape r)) \<or>
                   dtype d \<noteq> dtype r \<and>
                     err = AssertionError (InputType (name d) (dtype d) (dtype r))))"
    by (rule bind_inputs_Inl)
next
  fix s w'
  assume "create_executor e self w0 = (Inr s, w')"
  from create_executor_Inr[OF this] assms
  have "\<exists>ins. bind_inputs rin (s_torch_weights self) (get_inputs ex) Map.empty = Inr ins"
    by auto
  then show "\<forall>d\<in>set (get_inputs ex).
               \<exists>r. rin (name d) = Some r \<and> shape d = shape r \<and> dtype d = dtype r"
    by (simp add: bind_inputs_Inr_iff)
qed

text \<open>The theorem for a caller that declares \<open>x\<close> and \<open>labels\<close> and an artifact that
  declares \<open>x\<close> alone: the binding of the inputs passes.\<close>

theorem input_binding_validation_witness:
  "load_stage example_env example_attrs example_world =
     (Inr copy_executor, example_world\<lparr>trace := [LoadExecutor ''/work/nnfusion_rt/cuda_codegen'']\<rparr>) \<and>
   real_inputs_of example_env example_attrs (cells example_world) = Inr (desc_dict [x_desc, labels_desc]) \<and>
   dom (desc_dict [x_desc, labels_desc]) = {''x'', ''labels''} \<and>
   map name (get_inputs copy_executor) = [''x''] \<and>
   (\<exists>ins. bind_inputs (desc_dict [x_desc, labels_desc]) [(''w'', 0)] (get_inputs copy_executor)
             Map.empty = Inr ins)"
proof -
  have l: "load_stage example_env example_attrs example_world =
     (Inr copy_executor, example_world\<lparr>trace := [LoadExecutor ''/work/nnfusion_rt/cuda_codegen'']\<rparr>)"
    by (simp add: eval_defs example_defs example_attrs_def)
  have r: "real_inputs_of example_env example_attrs
             (cells (example_world\<lparr>trace := [LoadExecutor ''/work/nnfusion_rt/cuda_codegen'']\<rparr>))
           = Inr (desc_dict [x_desc, labels_desc])"
    by (simp add: real_inputs_of_def training_mode_def dict_get_def example_attrs_def)
  have ok: "\<forall>d\<in>set (get_inputs copy_executor).
             \<exists>r. desc_dict [x_desc, labels_desc] (name d) = Some r \<and> shape d = shape r \<and> dtype d = dtype r"
    by (simp add: copy_executor_def desc_dict_def x_desc_def labels_desc_def)
  have w: "s_torch_weights example_attrs = [(''w'', 0)]" "s_input_desc example_attrs = [x_desc, labels_desc]"
    "\<not> training_mode (s_codegen_flags example_attrs)"
    by (simp_all add: example_attrs_def training_mode_def dict_get_def)
  from input_binding_validation[OF l r] ok w l r
  show ?thesis
    by (auto simp: copy_executor_def x_desc_def labels_desc_def)
qed

subsection \<open>From the constructor to the binding\<close>

lemma output_desc_of_frame:
  "output_desc_of e args w = (r, w') \<Longrightarrow>
     cells w' = cells w \<and> next_free w' = next_free w \<and> trace w' = trace w \<and> log w' = log w"
  using generate_output_desc_frame[of e "arg_model args" "arg_input_desc args" "arg_device args" w r w']
  by (auto simp: output_desc_of_def split: option.splits)

lemma output_desc_of_given:
  "output_desc_of e args w = (Inr od, w') \<Longrightarrow>
     (case arg_output_desc args of None \<Rightarrow> True | Some d \<Rightarrow> od = d)"
  by (auto simp: output_desc_of_def split: option.splits)

lemma export_stage_frame:
  "export_stage e args od w = (r, w') \<Longrightarrow>
     next_free w \<le> next_free w' \<and> log w' = log w \<and>
     (\<forall>m. r = Inr m \<longrightarrow>
        trace w' = trace w @
          (if arg_build_nnf args
           then [Export (onnx_model_path_of e args) (map name (arg_input_desc args)) (map name od)
                   (arg_const_folding args)]
           else [])) \<and>
     (trace w' = trace w \<or>
      trace w' = trace w @ [Export (onnx_model_path_of e args) (map name (arg_input_desc args))
                             (map name od) (arg_const_folding args)])"
proof (cases "arg_build_nnf args")
  case False
  assume "export_stage e args od w = (r, w')"
  with False show ?thesis by (auto simp: export_stage_def)
next
  case True
  assume "export_stage e args od w = (r, w')"
  with True have c: "convert_model_to_onnx e (arg_model args) (arg_input_desc args) od
      (arg_device args) (onnx_model_path_of e args) (arg_const_folding args) w = (r, w')"
    by (simp add: export_stage_def)
  from convert_model_to_onnx_frame[OF c] obtain m w0 where
    mt: "model_to (arg_model args) (arg_device args) w = (m, w0)"
    and f: "next_free w' = next_free w0" "log w' = log w"
      "trace w' = trace w \<or>
       trace w' = trace w @ [Export (onnx_model_path_of e args) (map name (arg_input_desc args))
                               (map name od) (arg_const_folding args)]"
      "\<forall>m'. r = Inr m' \<longrightarrow>
         trace w' = trace w @ [Export (onnx_model_path_of e args) (map name (arg_input_desc args))
                                 (map name od) (arg_const_folding args)]"
    by blast
  from model_to_frame(3)[OF mt] f True show ?thesis by simp
qed

lemma PTSession_init_Inr:
  assumes "PTSession_init e args w = (Inr s, w')"
  shows "\<exists>m od w2.
           create_executor e (init_attrs e args m od) w2 = (Inr s, w') \<and>
           next_free w \<le> next_free w2 \<and>
           (case arg_output_desc args of None \<Rightarrow> True | Some d \<Rightarrow> od = d)"
proof -
  from assms have fmt: "arg_model_format args = ''onnx''"
    by (auto simp: PTSession_init_def split: if_splits)
  obtain r1 w1 where g: "output_desc_of e args w = (r1, w1)"
    by (cases "output_desc_of e args w")
  from assms fmt g obtain od where od: "r1 = Inr od"
    by (cases r1) (auto simp: PTSession_init_def)
  obtain r2 w2 where c: "export_stage e args od w1 = (r2, w2)"
    by (cases "export_stage e args od w1")
  from assms fmt g od c obtain m where m: "r2 = Inr m"
    by (cases r2) (auto simp: PTSession_init_def)
  from assms fmt g od c m
  have "create_executor e (init_attrs e args m od) w2 = (Inr s, w')"
    by (auto simp: PTSession_init_def split: if_splits)
  moreover have "next_free w \<le> next_free w2"
    using output_desc_of_frame[OF g] export_stage_frame[OF c] by simp
  moreover have "(case arg_output_desc args of None \<Rightarrow> True | Some d \<Rightarrow> od = d)"
    using g od output_desc_of_given by blast
  ultimately show ?thesis by blast
qed

subsection \<open>What the inputs are bound to\<close>




lemma feed_one_None: "(feed_one item ins n = None) = (ins n = None)"
  by (simp add: feed_one_def)



lemma feed_inputs_None: "(feed_inputs feed_data ins n = None) = (ins n = None)"
  unfolding feed_inputs_def
  by (induction feed_data arbitrary: ins) (simp_all add: feed_one_None)






subsection \<open>The output buffers\<close>

lemma bind_outputs_alloc:
  "bind_outputs e tr rin rout device descs outs w = (Inr outs', w') \<Longrightarrow>
     next_free w \<le> next_free w' \<and>
     (\<forall>n df. outs' n = Some df \<longrightarrow>
        outs n = Some df \<or> (next_free w \<le> reference df \<and> reference df < next_free w'))"
proof (induction descs arbitrary: outs w)
  case Nil
  then show ?case by simp
next
  case (Cons d descs)
  from Cons.prems obtain ty t where
    ty: "str2type e (dtype d) = Some ty" and
    t: "torch_zeros (shape d) (torch_type ty) device = Inr t" and
    rest: "bind_outputs e tr rin rout device descs
             (outs(name d \<mapsto> cast_pytorch_tensor (next_free w)))
             (w\<lparr>cells := (cells w)(next_free w := t), next_free := Suc (next_free w)\<rparr>)
           = (Inr outs', w')"
    by (auto split: if_splits option.splits sum.splits)
  from Cons.IH[OF rest] have le: "Suc (next_free w) \<le> next_free w'"
    and old: "\<And>n df. outs' n = Some df \<Longrightarrow>
        (outs(name d \<mapsto> cast_pytorch_tensor (next_free w))) n = Some df \<or>
        (Suc (next_free w) \<le> reference df \<and> reference df < next_free w')"
    by auto
  have "outs n = Some df \<or> (next_free w \<le> reference df \<and> reference df < next_free w')"
    if "outs' n = Some df" for n df
    using old[OF that] le by (cases "n = name d") (auto simp: cast_pytorch_tensor_def)
  with le show ?case by auto
qed

lemma collect_outputs_value:
  "collect_outputs outs descs = Inr rs \<Longrightarrow>
     rs = map (\<lambda>d. reference (the (outs (name d)))) descs \<and>
     (\<forall>d\<in>set descs. outs (name d) \<noteq> None)"
  by (induction descs arbitrary: rs) (auto split: option.splits sum.splits)

lemma run_by_nnf_Inr:
  assumes "run_by_nnf self feed_data check_nan w = (Inr rs, self', w')"
  shows "rs = map (\<lambda>d. reference (the (s_outputs self (name d)))) (s_output_desc self)"
    and "\<forall>d\<in>set (s_output_desc self). s_outputs self (name d) \<noteq> None"
    and "self' = self\<lparr>s_inputs := feed_inputs feed_data (s_inputs self)\<rparr>"
    and "next_free w' = next_free w"
proof -
  from assms have c: "collect_outputs (s_outputs self) (s_output_desc self) = Inr rs"
    by (auto simp: run_by_nnf_def Let_def is_weights_nan_value split: option.splits if_splits)
  from collect_outputs_value[OF c]
  show "rs = map (\<lambda>d. reference (the (s_outputs self (name d)))) (s_output_desc self)"
    and "\<forall>d\<in>set (s_output_desc self). s_outputs self (name d) \<noteq> None"
    by simp_all
  from assms show "self' = self\<lparr>s_inputs := feed_inputs feed_data (s_inputs self)\<rparr>"
    by (auto simp: run_by_nnf_def Let_def is_weights_nan_value split: option.splits if_splits)
  from assms show "next_free w' = next_free w"
    by (auto simp: run_by_nnf_def Let_def is_weights_nan_value split: option.splits if_splits)
qed

lemma PTSession_init_outputs:
  assumes "PTSession_init e args w = (Inr s, w')"
  shows "\<forall>n df. s_outputs s n = Some df \<longrightarrow> next_free w \<le> reference df \<and> reference df < next_free w'"
    and "case arg_output_desc args of None \<Rightarrow> True | Some od \<Rightarrow> s_output_desc s = od"
proof -
  from PTSession_init_Inr[OF assms] obtain m od w2 where
    c: "create_executor e (init_attrs e args m od) w2 = (Inr s, w')" and
    n: "next_free w \<le> next_free w2" and
    o: "case arg_output_desc args of None \<Rightarrow> True | Some d \<Rightarrow> od = d"
    by blast
  from create_executor_Inr[OF c] obtain ex w3 rin ins outs where
    l: "load_stage e (init_attrs e args m od) w2 = (Inr ex, w3)" and
    b: "bind_outputs e (training_mode (s_codegen_flags (init_attrs e args m od))) rin
             (desc_dict (s_output_desc (init_attrs e args m od))) (s_device (init_attrs e args m od))
             (get_outputs ex) Map.empty w3 = (Inr outs, w')" and
    s: "s = PTSession_attrs.extend (init_attrs e args m od)
              \<lparr>s_executor = ex, s_inputs = ins, s_outputs = outs\<rparr>"
    by blast
  have n3: "next_free w3 = next_free w2"
    using l
    by (auto simp: load_stage_def build_pipeline_def codegen_def modify_nnfusion_rt_def build_def
          external_def Let_def split: sum.splits if_splits option.splits prod.splits)
  from bind_outputs_alloc[OF b] n3
  have fresh: "\<And>k df. outs k = Some df \<Longrightarrow>
                 next_free w2 \<le> reference df \<and> reference df < next_free w'"
    by simp
  have "next_free w \<le> reference df \<and> reference df < next_free w'" if "outs k = Some df" for k df
    using fresh[OF that] n by linarith
  with s
  show "\<forall>n df. s_outputs s n = Some df \<longrightarrow> next_free w \<le> reference df \<and> reference df < next_free w'"
    by simp
  from o s show "case arg_output_desc args of None \<Rightarrow> True | Some od \<Rightarrow> s_output_desc s = od"
    by (auto simp: init_attrs_def split: option.splits)
qed

text \<open>Claim C4. For a session that has been built, two runs one after the other, with
  any feed data and from any state of the store, that both return, return the same
  list of buffer objects: for each output descriptor of the session, in the order of
  the caller's output descriptors, the object bound to its name at the build. These
  objects were allocated during the build, and a run allocates none and leaves the
  bindings of the outputs as they are.\<close>

theorem run_buffer_stable:
  assumes "PTSession_init e args w0 = (Inr s, w1)"
    and "run_by_nnf s feed1 check1 wa = (Inr outs1, s', wa')"
    and "run_by_nnf s' feed2 check2 wb = (Inr outs2, s'', wb')"
  shows "outs2 = outs1 \<and>
         outs1 = map (\<lambda>d. reference (the (s_outputs s (name d)))) (s_output_desc s) \<and>
         (case arg_output_desc args of None \<Rightarrow> True | Some od \<Rightarrow> s_output_desc s = od) \<and>
         (\<forall>a\<in>set outs1. next_free w0 \<le> a \<and> a < next_free w1) \<and>
         s_outputs s' = s_outputs s \<and> s_outputs s'' = s_outputs s \<and>
         next_free wa' = next_free wa \<and> next_free wb' = next_free wb"
proof -
  note r1 = run_by_nnf_Inr[OF assms(2)]
  note r2 = run_by_nnf_Inr[OF assms(3)]
  have same: "s_outputs s' = s_outputs s" "s_output_desc s' = s_output_desc s"
    using r1(3) by simp_all
  have same2: "s_outputs s'' = s_outputs s"
    using r2(3) same by simp
  have eq: "outs2 = outs1"
    using r1(1) r2(1) same by simp
  have fresh: "\<forall>a\<in>set outs1. next_free w0 \<le> a \<and> a < next_free w1"
  proof
    fix a
    assume "a \<in> set outs1"
    with r1(1) obtain d where d: "d \<in> set (s_output_desc s)"
      "a = reference (the (s_outputs s (name d)))"
      by auto
    with r1(2) obtain df where "s_outputs s (name d) = Some df" by auto
    with PTSession_init_outputs(1)[OF assms(1)] d(2)
    show "next_free w0 \<le> a \<and> a < next_free w1" by auto
  qed
  show ?thesis
    using eq r1(1) PTSession_init_outputs(2)[OF assms(1)] fresh same(1) same2 r1(4) r2(4)
    by simp
qed

text \<open>The theorem for two runs of the session of the example, on two different fed
  tensors: both return the one buffer allocated at the build.\<close>

theorem run_buffer_stable_witness:
  "\<exists>s w1 s' wa' s'' wb'.
     PTSession_init example_env example_args example_world = (Inr s, w1) \<and>
     run_by_nnf s [(''x'', 0)] False w1 = (Inr [2], s', wa') \<and>
     run_by_nnf s' [(''x'', 1)] False wa' = (Inr [2], s'', wb') \<and>
     next_free example_world = 2 \<and> next_free w1 = 3"
proof -
  obtain s w1 where i: "PTSession_init example_env example_args example_world = (Inr s, w1)"
    and ex: "s_executor s = copy_executor"
    and od: "s_output_desc s = [y_desc]"
    and x: "s_inputs s ''x'' = Some None"
    and y: "s_outputs s ''y'' = Some (DataFormat 2)"
    and n: "next_free w1 = 3"
    by (simp add: eval_defs example_defs PTSession_attrs.defs)
  obtain outs1 s' wa' where r1: "run_by_nnf s [(''x'', 0)] False w1 = (Inr outs1, s', wa')"
    using ex od x y
    by (simp add: run_by_nnf_def Let_def feed_inputs_def feed_one_def copy_executor_def y_desc_def)
  have x': "s_inputs s' ''x'' \<noteq> None"
    using run_by_nnf_Inr(3)[OF r1] x by (simp add: feed_inputs_def feed_one_def)
  have keep: "s_executor s' = copy_executor" "s_output_desc s' = [y_desc]"
    "s_outputs s' ''y'' = Some (DataFormat 2)"
    using run_by_nnf_Inr(3)[OF r1] ex od y by simp_all
  obtain outs2 s'' wb' where r2: "run_by_nnf s' [(''x'', 1)] False wa' = (Inr outs2, s'', wb')"
    using keep x'
    by (auto simp: run_by_nnf_def Let_def feed_inputs_def feed_one_def copy_executor_def y_desc_def)
  from run_buffer_stable[OF i r1 r2] y od
  have "outs2 = outs1" "outs1 = [2]"
    by (simp_all add: y_desc_def)
  with i r1 r2 n show ?thesis
    by (auto simp: example_world_def)
qed

subsection \<open>Which step raises which error\<close>

lemma generate_sample_errors:
  "generate_sample e desc device w = (Inl err, w') \<Longrightarrow>
     err \<notin> {ExternResultMemoryMissing, ConstFoldingTrainingIncompatible}"
  by (auto simp: generate_sample_def torch_randint_def torch_ones_def Let_def
           split: option.splits if_splits sum.splits prod.splits)

lemma generate_samples_errors:
  "generate_samples e descs device w = (Inl err, w') \<Longrightarrow>
     err \<notin> {ExternResultMemoryMissing, ConstFoldingTrainingIncompatible}"
proof (induction descs arbitrary: w)
  case Nil
  then show ?case by simp
next
  case (Cons d descs)
  obtain r1 w1 where s1: "generate_sample e d device w = (r1, w1)"
    by (cases "generate_sample e d device w")
  show ?case
  proof (cases r1)
    case (Inl err1)
    with Cons.prems s1 generate_sample_errors[of e d device w err1 w1] show ?thesis by auto
  next
    case (Inr t)
    obtain r2 w2 where s2: "generate_samples e descs device w1 = (r2, w2)"
      by (cases "generate_samples e descs device w1")
    with Cons.prems s1 Inr have "r2 = Inl err" "w2 = w'"
      by (auto split: sum.splits)
    with Cons.IH[of w1] s2 show ?thesis by simp
  qed
qed

lemma output_descs_errors:
  "output_descs e i ts = Inl err \<Longrightarrow>
     err \<notin> {ExternResultMemoryMissing, ConstFoldingTrainingIncompatible}"
  by (induction ts arbitrary: i)
     (auto simp: tensor2desc_def Let_def split: option.splits sum.splits)

lemma output_desc_of_errors:
  assumes "output_desc_of e args w = (Inl err, w')"
  shows "err \<notin> {ExternResultMemoryMissing, ConstFoldingTrainingIncompatible}"
proof -
  from assms have g: "generate_output_desc e (arg_model args) (arg_input_desc args)
                        (arg_device args) w = (Inl err, w')"
    by (auto simp: output_desc_of_def split: option.splits)
  obtain r1 w1 where s1: "generate_samples e (arg_input_desc args) (Some (arg_device args)) w = (r1, w1)"
    by (cases "generate_samples e (arg_input_desc args) (Some (arg_device args)) w")
  show ?thesis
  proof (cases r1)
    case (Inl err1)
    with g s1 generate_samples_errors[of e "arg_input_desc args" "Some (arg_device args)" w err1 w1]
    show ?thesis by (auto simp: generate_output_desc_def)
  next
    case (Inr ts)
    with g s1 have "err = ForwardError \<or> (\<exists>us. output_descs e 0 us = Inl err)"
      by (auto simp: generate_output_desc_def Let_def simp del: output_descs.simps
               split: option.splits)
    with output_descs_errors[of e 0 _ err] show ?thesis by auto
  qed
qed

lemma export_stage_errors:
  assumes "export_stage e args od w = (Inl err, w')"
  shows "err \<notin> {ExternResultMemoryMissing, ConstFoldingTrainingIncompatible}"
proof -
  obtain moved w0 where mt: "model_to (arg_model args) (arg_device args) w = (moved, w0)"
    by (cases "model_to (arg_model args) (arg_device args) w")
  from assms have c: "convert_model_to_onnx e (arg_model args) (arg_input_desc args) od
      (arg_device args) (onnx_model_path_of e args) (arg_const_folding args) w = (Inl err, w')"
    by (auto simp: export_stage_def split: if_splits)
  obtain r1 w1 where s1: "generate_samples e (arg_input_desc args) (Some (arg_device args)) w0 = (r1, w1)"
    by (cases "generate_samples e (arg_input_desc args) (Some (arg_device args)) w0")
  show ?thesis
  proof (cases r1)
    case (Inl err1)
    with c mt s1 generate_samples_errors[of e "arg_input_desc args" "Some (arg_device args)" w0 err1 w1]
    show ?thesis by (auto simp: convert_model_to_onnx_def Let_def)
  next
    case (Inr ins)
    obtain r2 w2 where s2: "generate_samples e od (Some (arg_device args)) w1 = (r2, w2)"
      by (cases "generate_samples e od (Some (arg_device args)) w1")
    show ?thesis
    proof (cases r2)
      case (Inl err2)
      with c mt s1 s2 Inr generate_samples_errors[of e od "Some (arg_device args)" w1 err2 w2]
      show ?thesis by (auto simp: convert_model_to_onnx_def Let_def)
    next
      case (Inr outs)
      with c mt s1 s2 \<open>r1 = Inr ins\<close> show ?thesis
        by (auto simp: convert_model_to_onnx_def Let_def split: if_splits)
    qed
  qed
qed

lemma load_stage_errors:
  "load_stage e self w = (Inl err, w') \<Longrightarrow>
     err \<notin> {ExternResultMemoryMissing, ConstFoldingTrainingIncompatible}"
  by (auto simp: load_stage_def rt_dir_of_def build_pipeline_def codegen_def
        modify_nnfusion_rt_def build_def external_def Let_def
      split: sum.splits if_splits option.splits prod.splits)

lemma add_weights_errors:
  "add_weights e h ws rin = Inl err \<Longrightarrow>
     err \<notin> {ExternResultMemoryMissing, ConstFoldingTrainingIncompatible}"
proof (induction ws arbitrary: rin)
  case Nil
  then show ?case by simp
next
  case (Cons p ws)
  obtain n a where p: "p = (n, a)" by (cases p)
  from Cons.prems Cons.IH show ?case
    unfolding p by (auto simp: tensor2desc_def Let_def split: if_splits sum.splits option.splits)
qed

lemma bind_inputs_errors:
  "bind_inputs rin ws descs ins = Inl err \<Longrightarrow>
     err \<notin> {ExternResultMemoryMissing, ConstFoldingTrainingIncompatible}"
  using bind_inputs_Inl[of rin ws descs ins err] by auto

lemma bind_outputs_errors:
  "bind_outputs e tr rin rout device descs outs w = (Inl err, w') \<Longrightarrow>
     err \<notin> {ExternResultMemoryMissing, ConstFoldingTrainingIncompatible}"
proof (induction descs arbitrary: outs w)
  case Nil
  then show ?case by simp
next
  case (Cons d descs)
  show ?case
  proof (cases "\<exists>ty t. str2type e (dtype d) = Some ty \<and>
                  torch_zeros (shape d) (torch_type ty) device = Inr t \<and>
                  bind_outputs e tr rin rout device descs
                    (outs(name d \<mapsto> cast_pytorch_tensor (next_free w)))
                    (w\<lparr>cells := (cells w)(next_free w := t), next_free := Suc (next_free w)\<rparr>)
                  = (Inl err, w')")
    case True
    with Cons.IH show ?thesis by blast
  next
    case False
    with Cons.prems show ?thesis
      by (auto simp: output_mismatch_def torch_zeros_def
               split: if_splits option.splits sum.splits)
  qed
qed

lemma bind_outputs_trace:
  "bind_outputs e tr rin rout device descs outs w = (r, w') \<Longrightarrow> trace w' = trace w"
proof (induction descs arbitrary: outs w)
  case Nil
  then show ?case by simp
next
  case (Cons d descs)
  show ?case
  proof (cases "\<exists>ty t. str2type e (dtype d) = Some ty \<and>
                  torch_zeros (shape d) (torch_type ty) device = Inr t \<and>
                  bind_outputs e tr rin rout device descs
                    (outs(name d \<mapsto> cast_pytorch_tensor (next_free w)))
                    (w\<lparr>cells := (cells w)(next_free w := t), next_free := Suc (next_free w)\<rparr>)
                  = (r, w')")
    case True
    then obtain ty t where "bind_outputs e tr rin rout device descs
                    (outs(name d \<mapsto> cast_pytorch_tensor (next_free w)))
                    (w\<lparr>cells := (cells w)(next_free w := t), next_free := Suc (next_free w)\<rparr>)
                  = (r, w')"
      by blast
    from Cons.IH[OF this] show ?thesis by simp
  next
    case False
    with Cons.prems show ?thesis
      by (auto split: if_splits option.splits sum.splits)
  qed
qed

lemma create_executor_extern:
  assumes "create_executor e self w = (Inl ExternResultMemoryMissing, w')"
  shows "\<not> truthy (dict_get (s_codegen_flags self) ''extern_result_memory'' PyNone) \<and>
         (\<exists>ex. load_stage e self w = (Inr ex, w'))"
proof -
  obtain r1 w1 where l: "load_stage e self w = (r1, w1)"
    by (cases "load_stage e self w")
  from assms l load_stage_errors[of e self w _ w1] obtain ex where ex: "r1 = Inr ex"
    by (cases r1) (auto simp: create_executor_def)
  from assms l ex have b: "bind_stage e self ex w1 = (Inl ExternResultMemoryMissing, w')"
    by (auto simp: create_executor_def split: prod.splits sum.splits)
  from b add_weights_errors[of e "cells w1" "s_torch_weights self" "desc_dict (s_input_desc self)"]
  obtain rin where rin: "real_inputs_of e self (cells w1) = Inr rin"
    by (cases "real_inputs_of e self (cells w1)")
       (auto simp: bind_stage_def Let_def real_inputs_of_def split: if_splits)
  from b rin bind_inputs_errors[of rin "s_torch_weights self" "get_inputs ex" Map.empty]
  obtain ins where ins: "bind_inputs rin (s_torch_weights self) (get_inputs ex) Map.empty = Inr ins"
    by (cases "bind_inputs rin (s_torch_weights self) (get_inputs ex) Map.empty")
       (auto simp: bind_stage_def Let_def)
  from b rin ins bind_outputs_errors[of e "training_mode (s_codegen_flags self)" rin
      "desc_dict (s_output_desc self)" "s_device self" "get_outputs ex" Map.empty w1]
  have "\<not> truthy (dict_get (s_codegen_flags self) ''extern_result_memory'' PyNone) \<and> w' = w1"
    by (auto simp: bind_stage_def Let_def split: if_splits prod.splits sum.splits)
  with l ex show ?thesis by simp
qed


lemma load_stage_Inr_trace:
  assumes "load_stage e self w = (Inr ex, w')"
  shows "\<exists>rt. rt_dir_of (s_device self) (s_workdir self) = Inr rt \<and>
           trace w' = trace w @
             (if s_build_nnf self
              then [Execute (s_workdir self)
                      (''nnfusion '' @ abspath e (s_onnx_model_path self) @ '' '' @
                         flags_str (s_model_format self) (s_codegen_flags self)),
                    Execute rt (''sed -i '' @ [CHR 0x27] @ ''/cudaDeviceReset()/s:^://:'' @
                                  [CHR 0x27] @ '' nnfusion_rt.cu''),
                    Execute rt ''cmake .'', Execute rt ''make -j'']
              else []) @ [LoadExecutor rt]"
  using assms
  by (auto simp: load_stage_def build_pipeline_def codegen_def modify_nnfusion_rt_def build_def
        external_def Let_def
      split: sum.splits if_splits option.splits prod.splits)

subsection \<open>The two checks on the configuration\<close>

lemma dict_update_absent:
  "k \<notin> fst ` set items \<Longrightarrow> map_of (dict_update d items) k = map_of d k"
  unfolding dict_update_def
proof (induction items arbitrary: d)
  case Nil
  show ?case by simp
next
  case (Cons p items)
  obtain k' v where p: "p = (k', v)" by (cases p)
  from Cons.prems p have "k' \<noteq> k" "k \<notin> fst ` set items" by auto
  then show ?case unfolding p by (simp add: Cons.IH AList.update_conv')
qed

lemma PTSession_init_trace:
  assumes "PTSession_init e args w = (r, w')"
    and "output_desc_of e args w = (Inr od, w1)"
    and "export_stage e args od w1 = (Inr m, w2)"
  shows "trace w2 = trace w @
           (if arg_build_nnf args
            then [Export (onnx_model_path_of e args) (map name (arg_input_desc args)) (map name od)
                    (arg_const_folding args)]
            else [])"
  using output_desc_of_frame[OF assms(2)] export_stage_frame[OF assms(3)] by simp

text \<open>Claim C2, as amended. The default \<open>extern_result_memory = 1\<close> is set first and the
  caller's flags are written over it, so a caller that does not mention the flag passes
  the check. When the flag is false after that, the construction of the session fails.
  The error of this check is raised in \<open>_create_executor\<close> after the artifact is loaded:
  by then the export, the code generator, the patch and the two build commands have
  run when the session builds the artifact, and the loading in any case.\<close>

theorem extern_result_memory_check:
  "((case arg_codegen_flags args of None \<Rightarrow> True
     | Some fs \<Rightarrow> ''extern_result_memory'' \<notin> fst ` set fs) \<longrightarrow>
      truthy (dict_get (codegen_flags_of (arg_codegen_flags args)) ''extern_result_memory'' PyNone)) \<and>
   (\<not> truthy (dict_get (codegen_flags_of (arg_codegen_flags args)) ''extern_result_memory'' PyNone)
      \<longrightarrow> (\<exists>err. fst (PTSession_init e args w) = Inl err)) \<and>
   (fst (PTSession_init e args w) = Inl ExternResultMemoryMissing \<longrightarrow>
      \<not> truthy (dict_get (codegen_flags_of (arg_codegen_flags args)) ''extern_result_memory'' PyNone) \<and>
      (\<exists>(od :: IODescription list) rt. rt_dir_of (arg_device args) (workdir_of e (arg_workdir args)) = Inr rt \<and>
         trace (snd (PTSession_init e args w)) =
           trace w @
           (if arg_build_nnf args
            then [Export (onnx_model_path_of e args) (map name (arg_input_desc args)) (map name od)
                    (arg_const_folding args),
                  Execute (workdir_of e (arg_workdir args))
                    (''nnfusion '' @ abspath e (onnx_model_path_of e args) @ '' '' @
                       flags_str (arg_model_format args) (codegen_flags_of (arg_codegen_flags args))),
                  Execute rt (''sed -i '' @ [CHR 0x27] @ ''/cudaDeviceReset()/s:^://:'' @
                                [CHR 0x27] @ '' nnfusion_rt.cu''),
                  Execute rt ''cmake .'', Execute rt ''make -j'']
            else []) @ [LoadExecutor rt]))"
proof (intro conjI impI)
  assume a: "case arg_codegen_flags args of None \<Rightarrow> True
             | Some fs \<Rightarrow> ''extern_result_memory'' \<notin> fst ` set fs"
  have "map_of (codegen_flags_of (arg_codegen_flags args)) ''extern_result_memory'' = Some (PyInt 1)"
    using a dict_update_absent[of "''extern_result_memory''" _ "[(''extern_result_memory'', PyInt 1)]"]
    by (auto simp: codegen_flags_of_def split: option.splits)
  then show "truthy (dict_get (codegen_flags_of (arg_codegen_flags args)) ''extern_result_memory'' PyNone)"
    by (simp add: dict_get_def)
next
  assume f: "\<not> truthy (dict_get (codegen_flags_of (arg_codegen_flags args)) ''extern_result_memory'' PyNone)"
  show "\<exists>err. fst (PTSession_init e args w) = Inl err"
  proof (cases "PTSession_init e args w")
    case (Pair r w')
    show ?thesis
    proof (cases r)
      case (Inl err)
      with Pair show ?thesis by simp
    next
      case (Inr s)
      with Pair have i: "PTSession_init e args w = (Inr s, w')" by simp
      from PTSession_init_Inr[OF i] obtain m od w2 where
        "create_executor e (init_attrs e args m od) w2 = (Inr s, w')" by blast
      from create_executor_Inr[OF this] f show ?thesis
        by (auto simp: init_attrs_def)
    qed
  qed
next
  assume x: "fst (PTSession_init e args w) = Inl ExternResultMemoryMissing"
  obtain w' where i: "PTSession_init e args w = (Inl ExternResultMemoryMissing, w')"
    using x by (cases "PTSession_init e args w") auto
  from i have fmt: "arg_model_format args = ''onnx''"
    by (auto simp: PTSession_init_def split: if_splits)
  obtain r1 w1 where g: "output_desc_of e args w = (r1, w1)"
    by (cases "output_desc_of e args w")
  from i fmt g output_desc_of_errors[of e args w _ w1] obtain od where od: "r1 = Inr od"
    by (cases r1) (auto simp: PTSession_init_def)
  obtain r2 w2 where c: "export_stage e args od w1 = (r2, w2)"
    by (cases "export_stage e args od w1")
  from i fmt g od c export_stage_errors[of e args od w1 _ w2] obtain m where m: "r2 = Inr m"
    by (cases r2) (auto simp: PTSession_init_def)
  from i fmt g od c m
  have ce: "create_executor e (init_attrs e args m od) w2 = (Inl ExternResultMemoryMissing, w')"
    by (auto simp: PTSession_init_def split: if_splits)
  from create_executor_extern[OF ce] obtain ex where
    nt: "\<not> truthy (dict_get (s_codegen_flags (init_attrs e args m od)) ''extern_result_memory'' PyNone)"
    and l: "load_stage e (init_attrs e args m od) w2 = (Inr ex, w')"
    by blast
  from load_stage_Inr_trace[OF l] obtain rt where
    rt: "rt_dir_of (s_device (init_attrs e args m od)) (s_workdir (init_attrs e args m od)) = Inr rt"
    and t: "trace w' = trace w2 @
             (if s_build_nnf (init_attrs e args m od)
              then [Execute (s_workdir (init_attrs e args m od))
                      (''nnfusion '' @ abspath e (s_onnx_model_path (init_attrs e args m od)) @ '' '' @
                         flags_str (s_model_format (init_attrs e args m od))
                           (s_codegen_flags (init_attrs e args m od))),
                    Execute rt (''sed -i '' @ [CHR 0x27] @ ''/cudaDeviceReset()/s:^://:'' @
                                  [CHR 0x27] @ '' nnfusion_rt.cu''),
                    Execute rt ''cmake .'', Execute rt ''make -j'']
              else []) @ [LoadExecutor rt]"
    by blast
  have t2: "trace w2 = trace w @
           (if arg_build_nnf args
            then [Export (onnx_model_path_of e args) (map name (arg_input_desc args)) (map name od)
                    (arg_const_folding args)]
            else [])"
    using PTSession_init_trace[OF i] g od c m by simp
  have A: "\<not> truthy (dict_get (codegen_flags_of (arg_codegen_flags args)) ''extern_result_memory'' PyNone)"
    using nt by (simp add: init_attrs_def)
  have B: "rt_dir_of (arg_device args) (workdir_of e (arg_workdir args)) = Inr rt"
    using rt by (simp add: init_attrs_def)
  have C: "trace (snd (PTSession_init e args w)) =
           trace w @
           (if arg_build_nnf args
            then [Export (onnx_model_path_of e args) (map name (arg_input_desc args)) (map name od)
                    (arg_const_folding args),
                  Execute (workdir_of e (arg_workdir args))
                    (''nnfusion '' @ abspath e (onnx_model_path_of e args) @ '' '' @
                       flags_str (arg_model_format args) (codegen_flags_of (arg_codegen_flags args))),
                  Execute rt (''sed -i '' @ [CHR 0x27] @ ''/cudaDeviceReset()/s:^://:'' @
                                [CHR 0x27] @ '' nnfusion_rt.cu''),
                  Execute rt ''cmake .'', Execute rt ''make -j'']
            else []) @ [LoadExecutor rt]"
    unfolding i using t t2 by (simp add: init_attrs_def)
  show "\<not> truthy (dict_get (codegen_flags_of (arg_codegen_flags args)) ''extern_result_memory'' PyNone)"
    by (rule A)
  show "\<exists>(od :: IODescription list) rt.
         rt_dir_of (arg_device args) (workdir_of e (arg_workdir args)) = Inr rt \<and>
         trace (snd (PTSession_init e args w)) =
           trace w @
           (if arg_build_nnf args
            then [Export (onnx_model_path_of e args) (map name (arg_input_desc args)) (map name od)
                    (arg_const_folding args),
                  Execute (workdir_of e (arg_workdir args))
                    (''nnfusion '' @ abspath e (onnx_model_path_of e args) @ '' '' @
                       flags_str (arg_model_format args) (codegen_flags_of (arg_codegen_flags args))),
                  Execute rt (''sed -i '' @ [CHR 0x27] @ ''/cudaDeviceReset()/s:^://:'' @
                                [CHR 0x27] @ '' nnfusion_rt.cu''),
                  Execute rt ''cmake .'', Execute rt ''make -j'']
            else []) @ [LoadExecutor rt]"
    using B C by blast
qed

text \<open>The theorem for a caller that sets the flag to 0, where the construction fails
  with the error of the check once the artifact is loaded, and for a caller that leaves
  the flags out, where the default passes the check.\<close>

theorem extern_result_memory_check_witness:
  "\<not> truthy (dict_get (codegen_flags_of (arg_codegen_flags extern_off_args))
               ''extern_result_memory'' PyNone) \<and>
   fst (PTSession_init example_env extern_off_args example_world) = Inl ExternResultMemoryMissing \<and>
   last (trace (snd (PTSession_init example_env extern_off_args example_world)))
     = LoadExecutor ''/work/nnfusion_rt/cuda_codegen'' \<and>
   arg_codegen_flags example_args = None \<and>
   truthy (dict_get (codegen_flags_of (arg_codegen_flags example_args)) ''extern_result_memory'' PyNone)"
proof -
  have f: "\<not> truthy (dict_get (codegen_flags_of (arg_codegen_flags extern_off_args))
               ''extern_result_memory'' PyNone)"
    by (simp add: extern_off_args_def example_args_def codegen_flags_of_def dict_update_def dict_get_def)
  have a: "case arg_codegen_flags example_args of None \<Rightarrow> True
           | Some fs \<Rightarrow> ''extern_result_memory'' \<notin> fst ` set fs"
    by (simp add: example_args_def)
  have n: "arg_codegen_flags example_args = None"
    by (simp add: example_args_def)
  from extern_result_memory_check[of extern_off_args example_env example_world] f
  obtain err where err: "fst (PTSession_init example_env extern_off_args example_world) = Inl err"
    by blast
  have "err = ExternResultMemoryMissing"
    using err by (simp add: eval_defs example_defs extern_off_args_def)
  with err have x: "fst (PTSession_init example_env extern_off_args example_world)
                      = Inl ExternResultMemoryMissing"
    by simp
  from extern_result_memory_check[of extern_off_args example_env example_world] x
  obtain evs rt where rt: "rt_dir_of (arg_device extern_off_args)
                             (workdir_of example_env (arg_workdir extern_off_args)) = Inr rt"
    and t: "trace (snd (PTSession_init example_env extern_off_args example_world))
              = evs @ [LoadExecutor rt]"
    by (metis append.assoc)
  have "rt = ''/work/nnfusion_rt/cuda_codegen''"
    using rt by (simp add: eval_defs example_defs extern_off_args_def)
  with t have l: "last (trace (snd (PTSession_init example_env extern_off_args example_world)))
                    = LoadExecutor ''/work/nnfusion_rt/cuda_codegen''"
    by simp
  from extern_result_memory_check[of example_args example_env example_world] a
  have "truthy (dict_get (codegen_flags_of (arg_codegen_flags example_args))
                  ''extern_result_memory'' PyNone)"
    by blast
  with f x l n show ?thesis by blast
qed

text \<open>Claim C2 as stated fails twice. With the flag set to 0 the construction fails only
  after six external steps, the first of them the export; and with the flag absent the
  construction does not fail.\<close>

theorem extern_result_memory_counterexample:
  "fst (PTSession_init example_env extern_off_args example_world) = Inl ExternResultMemoryMissing \<and>
   length (trace (snd (PTSession_init example_env extern_off_args example_world))) = 6 \<and>
   hd (trace (snd (PTSession_init example_env extern_off_args example_world)))
     = Export ''/work/nnf.onnx'' [''x''] [''y''] False \<and>
   arg_codegen_flags example_args = None \<and>
   (\<exists>s. fst (PTSession_init example_env example_args example_world) = Inr s)"
  by (simp add: eval_defs example_defs extern_off_args_def)






subsection \<open>The messages of the assertions on the outputs\<close>

text \<open>Claim C6 on the code. The caller declares the output \<open>y\<close> of shape \<open>(2, 3)\<close> and the
  artifact declares it with shape \<open>(3, 2)\<close>: the assertion fails, and building its message
  looks \<open>y\<close> up among the inputs, so the construction ends in a \<open>KeyError\<close> that names
  neither shape. When the caller also has an input named \<open>y\<close>, of shape \<open>(7)\<close>, and the
  dtypes of the output differ, the message gives the artifact's shape and the shape of
  that input, and no dtype.\<close>

theorem output_mismatch_message:
  "fst (PTSession_init shape_mismatch_env example_args example_world) = Inl (KeyError ''y'') \<and>
   fst (PTSession_init dtype_mismatch_env shadow_args example_world)
     = Inl (AssertionError (OutputShape ''y'' [IntDim 2, IntDim 3] [IntDim 7]))"
  by (simp add: eval_defs example_defs shape_mismatch_env_def dtype_mismatch_env_def
        shadow_args_def)

end
